theory Spec2Isabelle
  imports Complex_Main "HOL-Library.Multiset" "HOL-Library.Log_Nat"
begin

section \<open>eKart order backend (server.ts)\<close>

text \<open>
  A shallow embedding of the three request handlers of \<^verbatim>\<open>server.ts\<close>, the static
  product list, the \<^verbatim>\<open>orders\<close> table and \<^verbatim>\<open>sendOrderEmail\<close>.

  Conventions of the model.
  \<^item> The \<^verbatim>\<open>orders\<close> table is the list of its rows in insertion order. The statements
    the handlers run are modelled by their SQL meaning; the only statement failure in
    the model is the PRIMARY KEY violation of an INSERT. Failures of the storage
    itself (I/O, locking) are not modelled.
  \<^item> A JavaScript number is an IEEE 754 double: a rational that a double represents,
    an infinity or NaN. Multiplication and addition round the exact result to the
    nearest double, ties to even. The sign of zero is not modelled (no value the
    handlers compute depends on it).
  \<^item> The value returned by \<^verbatim>\<open>Math.random()\<close> and the value of
    \<^verbatim>\<open>CURRENT_TIMESTAMP\<close> are explicit inputs of order creation. A timestamp is
    the number of seconds it denotes; the text form \<^verbatim>\<open>YYYY-MM-DD HH:MM:SS\<close> the
    table stores is ordered the same way.
  \<^item> An exception is a value: a computation that may throw returns \<open>exn + 'a\<close>, with
    \<open>Inl\<close> for the exception, and each \<^verbatim>\<open>try/catch\<close> is a case distinction.
  \<^item> The handler of \<^verbatim>\<open>/api/verify-payment\<close> reads and writes the table inside one
    timer callback, with no \<^verbatim>\<open>await\<close> between the SELECT and the UPDATE, so the
    handler is one atomic step on the table as it is when the timer fires; the 2000 ms
    delay itself is not modelled. An exception that escapes the callback is an
    unhandled rejection: no response is sent and the process exits.
  \<^item> The customer fields and \<^verbatim>\<open>orderId\<close> are strings.
\<close>

subsection \<open>JavaScript numbers\<close>

datatype number = Finite rat | Infinity | NegInfinity | NaN

text \<open>Rounding to the nearest integer, ties to the even one.\<close>

definition round_half_even :: "rat \<Rightarrow> int" where
  "round_half_even q =
     (let f = \<lfloor>q\<rfloor>; r = q - of_int f
      in if r < 1 / 2 then f
         else if 1 / 2 < r then f + 1
         else if even f then f else f + 1)"

text \<open>
  The binary exponent of a positive rational \<open>a\<close>: the \<open>e\<close> with \<open>2^e \<le> a < 2^(e+1)\<close>,
  but not below -1022, the exponent of the subnormal doubles.
\<close>

definition exponent :: "rat \<Rightarrow> int" where
  "exponent a =
     (if 1 \<le> a then bitlen \<lfloor>a\<rfloor> - 1
      else max (- 1022) (- bitlen (\<lceil>1 / a\<rceil> - 1)))"

text \<open>
  The double nearest to a rational: 53 significant bits, so the doubles around \<open>x\<close> are
  the multiples of \<open>2^(e - 52)\<close>; a result of magnitude \<open>2^1024\<close> or more is an infinity.
\<close>

definition round_double :: "rat \<Rightarrow> number" where
  "round_double x =
     (if x = 0 then Finite 0
      else
        let a = \<bar>x\<bar>;
            ulp = 2 powi (exponent a - 52);
            m = of_int (round_half_even (a / ulp)) * ulp
        in if 2 ^ 1024 \<le> m then (if x < 0 then NegInfinity else Infinity)
           else Finite (if x < 0 then - m else m))"

text \<open>A rational is a double when rounding leaves it as it is.\<close>

definition is_double :: "rat \<Rightarrow> bool" where
  "is_double x = (round_double x = Finite x)"

fun is_zero :: "number \<Rightarrow> bool" where
  "is_zero (Finite a) = (a = 0)"
| "is_zero x = False"

fun negative :: "number \<Rightarrow> bool" where
  "negative (Finite a) = (a < 0)"
| "negative NegInfinity = True"
| "negative x = False"

text \<open>The operator \<^verbatim>\<open>*\<close> on numbers.\<close>

fun js_mul :: "number \<Rightarrow> number \<Rightarrow> number" where
  "js_mul (Finite a) (Finite b) = round_double (a * b)"
| "js_mul NaN y = NaN"
| "js_mul x NaN = NaN"
| "js_mul x y =
     (if is_zero x \<or> is_zero y then NaN
      else if negative x = negative y then Infinity else NegInfinity)"

text \<open>The operator \<^verbatim>\<open>+\<close> on numbers.\<close>

fun js_add :: "number \<Rightarrow> number \<Rightarrow> number" where
  "js_add (Finite a) (Finite b) = round_double (a + b)"
| "js_add NaN y = NaN"
| "js_add x NaN = NaN"
| "js_add Infinity NegInfinity = NaN"
| "js_add NegInfinity Infinity = NaN"
| "js_add Infinity y = Infinity"
| "js_add x Infinity = Infinity"
| "js_add NegInfinity y = NegInfinity"
| "js_add x NegInfinity = NegInfinity"

text \<open>\<^verbatim>\<open>Math.floor\<close>\<close>

fun Math_floor :: "number \<Rightarrow> number" where
  "Math_floor (Finite a) = Finite (of_int \<lfloor>a\<rfloor>)"
| "Math_floor x = x"

text \<open>Decimal digits of a natural number.\<close>

fun show_nat :: "nat \<Rightarrow> string" where
  "show_nat n =
     (if n < 10 then [''0123456789'' ! n]
      else show_nat (n div 10) @ [''0123456789'' ! (n mod 10)])"

declare show_nat.simps [simp del]

definition show_int :: "int \<Rightarrow> string" where
  "show_int k = (if k < 0 then CHR ''-'' # show_nat (nat (- k)) else show_nat (nat k))"

text \<open>
  The string a template literal makes of a number that is an integer, an infinity or
  NaN, as \<^verbatim>\<open>Math.floor\<close> returns them. An integer prints as its decimal digits; the
  exponent notation JavaScript uses from \<open>10^21\<close> on is not modelled.
\<close>

fun number_to_string :: "number \<Rightarrow> string" where
  "number_to_string (Finite a) = show_int \<lfloor>a\<rfloor>"
| "number_to_string Infinity = ''Infinity''"
| "number_to_string NegInfinity = ''-Infinity''"
| "number_to_string NaN = ''NaN''"

subsection \<open>Data\<close>

record product =
  product_id :: int
  name :: string
  price :: int

definition PRODUCTS :: "product list" where
  "PRODUCTS =
    [\<lparr>product_id = 1, name = ''Mechanical RGB Keyboard'', price = 10499\<rparr>,
     \<lparr>product_id = 2, name = ''4K UltraWide Monitor'', price = 39999\<rparr>,
     \<lparr>product_id = 3, name = ''Wireless Gaming Mouse'', price = 6499\<rparr>,
     \<lparr>product_id = 4, name = ''Noise Cancelling Headphones'', price = 19999\<rparr>,
     \<lparr>product_id = 5, name = ''Gaming PC Case'', price = 12999\<rparr>,
     \<lparr>product_id = 6, name = ''Ergonomic Office Chair'', price = 27999\<rparr>,
     \<lparr>product_id = 7, name = ''Streamer Microphone'', price = 14999\<rparr>,
     \<lparr>product_id = 8, name = ''External SSD 2TB'', price = 15999\<rparr>,
     \<lparr>product_id = 9, name = ''Pendrive'', price = 1\<rparr>]"

text \<open>
  An element of \<^verbatim>\<open>req.body.items\<close>, as the handler reads it. \<open>item_id\<close> is the field
  \<^verbatim>\<open>id\<close> as \<^verbatim>\<open>===\<close> compares it with a product id: the number itself, or \<open>NaN\<close> for
  a value that is not a number (it equals no product id either). \<open>quantity\<close> is the
  number the operator \<^verbatim>\<open>*\<close> converts the field \<^verbatim>\<open>quantity\<close> to: \<open>NaN\<close> for a
  missing field, \<open>Infinity\<close> for a JSON number beyond the range of doubles.
\<close>

record item =
  item_id :: number
  quantity :: number

text \<open>\<^verbatim>\<open>req.body.customer\<close>.\<close>

record customer =
  firstName :: string
  lastName :: string
  cust_email :: string
  cust_address :: string

text \<open>
  A row of the table \<^verbatim>\<open>orders\<close>. The column \<^verbatim>\<open>id\<close> is \<open>order_id\<close> here (\<open>id\<close> is the
  identity function of HOL). \<^verbatim>\<open>total\<close> and \<^verbatim>\<open>transaction_id\<close> are \<open>None\<close> when the
  column is NULL.
\<close>

record order_row =
  order_id :: string
  customer_name :: string
  email :: string
  address :: string
  total :: "number option"
  status :: string
  transaction_id :: "string option"
  created_at :: nat

type_synonym exn = string

datatype email_status = success | failed

record mail =
  mail_from :: string
  mail_to :: string
  subject :: string
  html :: string

datatype event =
    console_warn string
  | console_log string
  | console_error string
  | mail_sent mail

text \<open>
  What \<^verbatim>\<open>sendOrderEmail\<close> reads from its surroundings: the two environment variables
  (\<open>None\<close> when undefined), the behaviour of \<^verbatim>\<open>transporter.sendMail\<close> (\<open>Inl\<close> when
  the promise rejects), and the text of the HTML template of lines 60-77 as a function
  of the order and the status (it formats the total with the locale-dependent
  \<^verbatim>\<open>toLocaleString\<close>).
\<close>

record mail_env =
  GMAIL_USER :: "string option"
  GMAIL_APP_PASSWORD :: "string option"
  sendMail :: "mail \<Rightarrow> exn + unit"
  html_template :: "order_row \<Rightarrow> email_status \<Rightarrow> string"

text \<open>
  The server state: the table, what the process has logged and sent so far, and whether
  the process has exited on an unhandled rejection.
\<close>

record state =
  orders :: "order_row list"
  events :: "event list"
  exited :: bool

text \<open>
  Response bodies. \<open>created_body\<close> is \<^verbatim>\<open>{orderId, total}\<close> as \<^verbatim>\<open>res.json\<close> writes it:
  the total is \<open>None\<close> for the JSON \<^verbatim>\<open>null\<close>.
\<close>

datatype body =
    orders_body "order_row list"
  | created_body string "rat option"
  | success_body
  | error_body string

text \<open>A response is a status code and a JSON body; \<open>None\<close>: no response is sent.\<close>

type_synonym response = "(nat \<times> body) option"

subsection \<open>Order creation\<close>

text \<open>\<^verbatim>\<open>PRODUCTS.find(p => p.id === item.id)\<close>\<close>

definition find_product :: "number \<Rightarrow> product option" where
  "find_product i = find (\<lambda>p. Finite (of_int (product_id p)) = i) PRODUCTS"

text \<open>The loop of lines 112-118, with \<^verbatim>\<open>calculatedTotal\<close> as accumulator.\<close>

fun total_loop :: "item list \<Rightarrow> number \<Rightarrow> number" where
  "total_loop [] calculatedTotal = calculatedTotal"
| "total_loop (it # its) calculatedTotal =
     (case find_product (item_id it) of
        Some p \<Rightarrow>
          total_loop its
            (js_add calculatedTotal (js_mul (Finite (of_int (price p))) (quantity it)))
      | None \<Rightarrow> total_loop its calculatedTotal)"

definition calculatedTotal :: "item list \<Rightarrow> number" where
  "calculatedTotal items = total_loop items (Finite 0)"

text \<open>
  \<^verbatim>\<open>`EK-${Math.floor(Math.random() * 1000000)}`\<close>, for the double \<open>u\<close> returned by
  \<^verbatim>\<open>Math.random()\<close>.
\<close>

definition gen_orderId :: "rat \<Rightarrow> string" where
  "gen_orderId u =
     ''EK-'' @ number_to_string (Math_floor (js_mul (Finite u) (Finite 1000000)))"

text \<open>A number bound to a statement parameter: SQLite stores NaN as NULL.\<close>

fun bind_number :: "number \<Rightarrow> number option" where
  "bind_number NaN = None"
| "bind_number x = Some x"

text \<open>A number in a JSON response: \<^verbatim>\<open>JSON.stringify\<close> writes NaN and the infinities as null.\<close>

fun json_number :: "number \<Rightarrow> rat option" where
  "json_number (Finite a) = Some a"
| "json_number x = None"

text \<open>
  The INSERT of lines 123-134: the PRIMARY KEY on \<^verbatim>\<open>id\<close> rejects a row whose id is in
  the table already; \<^verbatim>\<open>transaction_id\<close> is not among the columns, so it is NULL, and
  \<^verbatim>\<open>created_at\<close> takes its default.
\<close>

definition insert_order :: "order_row list \<Rightarrow> order_row \<Rightarrow> exn + order_row list" where
  "insert_order db r =
     (if order_id r \<in> set (map order_id db)
      then Inl ''UNIQUE constraint failed: orders.id''
      else Inr (db @ [r]))"

definition create_order :: "state \<Rightarrow> item list \<Rightarrow> customer \<Rightarrow> rat \<Rightarrow> nat \<Rightarrow> response \<times> state" where
  "create_order s items c u now =
     (let calculated = calculatedTotal items;
          orderId = gen_orderId u
      in case insert_order (orders s)
                \<lparr>order_id = orderId,
                 customer_name = firstName c @ '' '' @ lastName c,
                 email = cust_email c,
                 address = cust_address c,
                 total = bind_number calculated,
                 status = ''pending'',
                 transaction_id = None,
                 created_at = now\<rparr> of
           Inr db' \<Rightarrow>
             (Some (200, created_body orderId (json_number calculated)), s\<lparr>orders := db'\<rparr>)
         | Inl err \<Rightarrow>
             (Some (500, error_body ''Failed to create order''),
              s\<lparr>events := events s @ [console_error err]\<rparr>))"

subsection \<open>The notifier\<close>

text \<open>\<^verbatim>\<open>!process.env.X\<close>: an environment variable is falsy when undefined or empty.\<close>

definition falsy :: "string option \<Rightarrow> bool" where
  "falsy v = (case v of None \<Rightarrow> True | Some x \<Rightarrow> x = [])"

text \<open>
  \<^verbatim>\<open>sendOrderEmail\<close> (lines 50-90). The result is the promise's outcome: \<open>Inl\<close> if it
  rejects, \<open>Inr\<close> with what was logged and sent if it resolves. The template of lines
  60-77 is evaluated before the \<^verbatim>\<open>try\<close>: \<^verbatim>\<open>order.total.toLocaleString()\<close> (line 70)
  throws a TypeError when the total of the row is NULL, and that exception rejects the
  promise. The \<^verbatim>\<open>try/catch\<close> of lines 79-89 is the case distinction on the outcome of
  \<^verbatim>\<open>sendMail\<close>.
\<close>

definition sendOrderEmail :: "mail_env \<Rightarrow> order_row \<Rightarrow> email_status \<Rightarrow> exn + event list" where
  "sendOrderEmail env order st =
     (if falsy (GMAIL_USER env) \<or> falsy (GMAIL_APP_PASSWORD env)
      then Inr [console_warn ''Gmail credentials not configured. Skipping email.'']
      else
        let subj = (if st = success then ''Order Confirmed - '' @ order_id order
                    else ''Order Payment Failed - '' @ order_id order)
        in case total order of
             None \<Rightarrow> Inl ''TypeError: Cannot read properties of null (reading 'toLocaleString')''
           | Some n \<Rightarrow>
               let m = \<lparr>mail_from = [CHR 0x22] @ ''eKart Support'' @ [CHR 0x22] @ '' <''
                                     @ the (GMAIL_USER env) @ ''>'',
                        mail_to = email order,
                        subject = subj,
                        html = html_template env order st\<rparr>
               in case sendMail env m of
                    Inr _ \<Rightarrow>
                      Inr [mail_sent m,
                           console_log (''Email sent to '' @ email order @ '' for order ''
                                        @ order_id order)]
                  | Inl err \<Rightarrow> Inr [console_error (''Error sending email: '' @ err)])"

subsection \<open>Payment verification\<close>

text \<open>
  The field \<^verbatim>\<open>transactionId\<close> of the request body: a string, or a value of another
  JSON type (number, boolean, null, array, object, or missing), given by the string
  that \<^verbatim>\<open>RegExp.prototype.test\<close> converts it to. Only a string has the method
  \<^verbatim>\<open>startsWith\<close>.
\<close>

datatype js_value = Str string | NonStr string

fun to_string :: "js_value \<Rightarrow> string" where
  "to_string (Str t) = t"
| "to_string (NonStr t) = t"

text \<open>\<^verbatim>\<open>/^\d{12}$/.test(transactionId)\<close>: the whole string is twelve characters 0-9.\<close>

definition is_digit :: "char \<Rightarrow> bool" where
  "is_digit c = (c \<in> set ''0123456789'')"

definition matches_12_digits :: "string \<Rightarrow> bool" where
  "matches_12_digits t = (length t = 12 \<and> list_all is_digit t)"

definition test_12_digits :: "js_value \<Rightarrow> bool" where
  "test_12_digits v = matches_12_digits (to_string v)"

text \<open>\<^verbatim>\<open>transactionId.startsWith('2026')\<close> on a string.\<close>

definition startsWith :: "string \<Rightarrow> string \<Rightarrow> bool" where
  "startsWith t pre = (take (length pre) t = pre)"

text \<open>\<^verbatim>\<open>SELECT * FROM orders WHERE id = ?\<close> with \<^verbatim>\<open>.get\<close>: the first matching row.\<close>

definition get_order :: "order_row list \<Rightarrow> string \<Rightarrow> order_row option" where
  "get_order db orderId = find (\<lambda>r. order_id r = orderId) db"

text \<open>
  \<^verbatim>\<open>UPDATE orders SET status = 'paid', transaction_id = ? WHERE id = ?\<close>: the new
  table and \<^verbatim>\<open>result.changes\<close>, the number of rows matched.
\<close>

definition update_paid :: "order_row list \<Rightarrow> string \<Rightarrow> string \<Rightarrow> order_row list \<times> nat" where
  "update_paid db transactionId orderId =
     (map (\<lambda>r. if order_id r = orderId
                then r\<lparr>status := ''paid'', transaction_id := Some transactionId\<rparr>
                else r) db,
      length (filter (\<lambda>r. order_id r = orderId) db))"

text \<open>
  The handler of lines 143-189. The call of \<^verbatim>\<open>startsWith\<close> (line 161) and the await
  of the failure email (line 163) are outside any \<^verbatim>\<open>try\<close>: an exception there is an
  unhandled rejection of the timer callback. The success email is awaited inside the
  \<^verbatim>\<open>try\<close> of lines 169-187, after the UPDATE, and its \<^verbatim>\<open>catch\<close> answers 500. The
  UPDATE itself does not fail in the model.
\<close>

definition verify_payment :: "mail_env \<Rightarrow> state \<Rightarrow> string \<Rightarrow> js_value \<Rightarrow> response \<times> state" where
  "verify_payment env s orderId transactionId =
     (if \<not> test_12_digits transactionId
      then (Some (400, error_body ''Invalid Transaction ID. Must be 12 digits.''), s)
      else
        case get_order (orders s) orderId of
          None \<Rightarrow> (Some (404, error_body ''Order not found''), s)
        | Some order \<Rightarrow>
            (case transactionId of
               NonStr v \<Rightarrow> (None, s\<lparr>exited := True\<rparr>)
             | Str t \<Rightarrow>
                 if \<not> startsWith t ''2026''
                 then (case sendOrderEmail env order failed of
                         Inl err \<Rightarrow> (None, s\<lparr>exited := True\<rparr>)
                       | Inr evs \<Rightarrow>
                           (Some (400, error_body
                              ''Transaction ID verification failed. For demo purposes, use an ID starting with '2026'.''),
                            s\<lparr>events := events s @ evs\<rparr>))
                 else
                   let (db', changes) = update_paid (orders s) t orderId;
                       s' = s\<lparr>orders := db'\<rparr>
                   in if changes > 0
                      then (case sendOrderEmail env (order\<lparr>status := ''paid''\<rparr>) success of
                              Inr evs \<Rightarrow>
                                (Some (200, success_body), s'\<lparr>events := events s' @ evs\<rparr>)
                            | Inl err \<Rightarrow>
                                (Some (500, error_body ''Verification failed''),
                                 s'\<lparr>events := events s' @ [console_error err]\<rparr>))
                      else (Some (404, error_body ''Order not found''), s')))"

subsection \<open>Listing\<close>

text \<open>
  \<^verbatim>\<open>SELECT * FROM orders ORDER BY created_at DESC\<close>. SQL leaves the order of rows with
  equal \<^verbatim>\<open>created_at\<close> open; the model keeps them in insertion order, as a stable
  sort does. The SELECT does not fail in the model, so the \<^verbatim>\<open>catch\<close> of lines 103-105
  (500) has no counterpart.
\<close>

definition select_orders_desc :: "order_row list \<Rightarrow> order_row list" where
  "select_orders_desc db = rev (sort_key created_at (rev db))"

definition list_orders :: "state \<Rightarrow> response \<times> state" where
  "list_orders s = (Some (200, orders_body (select_orders_desc (orders s))), s)"

subsection \<open>The server as a transition system\<close>

text \<open>
  A request, with the values the environment supplies while it is handled: for order
  creation the result of \<^verbatim>\<open>Math.random()\<close> and the current timestamp.
\<close>

datatype request =
    GET_admin_orders
  | POST_orders "item list" customer rat nat
  | POST_verify_payment string js_value

text \<open>A process that has exited answers nothing.\<close>

fun handle :: "mail_env \<Rightarrow> state \<Rightarrow> request \<Rightarrow> response \<times> state" where
  "handle env s GET_admin_orders = (if exited s then (None, s) else list_orders s)"
| "handle env s (POST_orders items c u now) =
     (if exited s then (None, s) else create_order s items c u now)"
| "handle env s (POST_verify_payment orderId transactionId) =
     (if exited s then (None, s) else verify_payment env s orderId transactionId)"

text \<open>Handling a sequence of requests, each with the mail environment of its time.\<close>

fun run :: "state \<Rightarrow> (mail_env \<times> request) list \<Rightarrow> state" where
  "run s [] = s"
| "run s ((env, rq) # rest) = run (snd (handle env s rq)) rest"

text \<open>The table is created empty (\<^verbatim>\<open>CREATE TABLE IF NOT EXISTS\<close> on a fresh database).\<close>

definition initial :: state where
  "initial = \<lparr>orders = [], events = [], exited = False\<rparr>"

subsection \<open>Sample inputs\<close>

text \<open>
  Concrete environments and tables for evaluating the handlers: no mail credentials;
  credentials with a transport that delivers; credentials with a transport that
  rejects every message.
\<close>

definition env_no_credentials :: mail_env where
  "env_no_credentials =
     \<lparr>GMAIL_USER = None, GMAIL_APP_PASSWORD = None,
      sendMail = (\<lambda>m. Inr ()), html_template = (\<lambda>order st. [])\<rparr>"

definition env_delivering :: mail_env where
  "env_delivering =
     \<lparr>GMAIL_USER = Some ''shop@example.org'', GMAIL_APP_PASSWORD = Some ''secret'',
      sendMail = (\<lambda>m. Inr ()), html_template = (\<lambda>order st. [])\<rparr>"

definition env_rejecting :: mail_env where
  "env_rejecting =
     \<lparr>GMAIL_USER = Some ''shop@example.org'', GMAIL_APP_PASSWORD = Some ''secret'',
      sendMail = (\<lambda>m. Inl ''ECONNREFUSED''), html_template = (\<lambda>order st. [])\<rparr>"

definition sample_customer :: customer where
  "sample_customer =
     \<lparr>firstName = ''Asha'', lastName = ''Rao'', cust_email = ''asha@example.org'',
      cust_address = ''12 Lake Road''\<rparr>"

text \<open>The row that creating an order for two keyboards with the draw 1/2 inserts.\<close>

definition sample_pending :: order_row where
  "sample_pending =
     \<lparr>order_id = ''EK-500000'', customer_name = ''Asha Rao'', email = ''asha@example.org'',
      address = ''12 Lake Road'', total = Some (Finite 20998), status = ''pending'',
      transaction_id = None, created_at = 1700000000\<rparr>"

definition sample_state :: state where
  "sample_state = \<lparr>orders = [sample_pending], events = [], exited = False\<rparr>"

text \<open>
  The row that creating an order inserts when the item names a keyboard and has no
  \<^verbatim>\<open>quantity\<close> field (body \<^verbatim>\<open>{"items":[{"id":1}], ...}\<close>), with the draw 1/2.
\<close>

definition null_total_pending :: order_row where
  "null_total_pending =
     \<lparr>order_id = ''EK-500000'', customer_name = ''Asha Rao'', email = ''asha@example.org'',
      address = ''12 Lake Road'', total = None, status = ''pending'',
      transaction_id = None, created_at = 1700000000\<rparr>"

definition null_total_state :: state where
  "null_total_state = \<lparr>orders = [null_total_pending], events = [], exited = False\<rparr>"

section \<open>Properties\<close>

subsection \<open>Double arithmetic\<close>

lemma floor_rat_numeral_div:
  "\<lfloor>numeral a / numeral b :: rat\<rfloor> = numeral a div numeral b"
  by (metis floor_divide_of_int_eq of_int_numeral)

lemma ceiling_rat_numeral_div:
  "\<lceil>numeral a / numeral b :: rat\<rceil> = - (- numeral a div numeral b)"
  by (metis ceiling_divide_eq_div of_int_numeral)

lemmas double_eval =
  exponent_def compute_bitlen round_half_even_def Let_def
  floor_rat_numeral_div ceiling_rat_numeral_div


lemma round_half_even_of_int: "round_half_even (of_int z) = z"
  by (simp add: round_half_even_def)

lemma round_half_even_error: "\<bar>of_int (round_half_even q) - q\<bar> \<le> 1 / 2"
proof -
  have "of_int \<lfloor>q\<rfloor> \<le> q" "q < of_int \<lfloor>q\<rfloor> + 1" by linarith+
  then show ?thesis
    by (auto simp: round_half_even_def Let_def)
qed

lemma round_half_even_nonneg: "0 \<le> q \<Longrightarrow> 0 \<le> round_half_even q"
  by (auto simp: round_half_even_def Let_def)

lemma round_double_exact:
  assumes "x \<noteq> 0" and "\<bar>x\<bar> / 2 powi (exponent \<bar>x\<bar> - 52) = of_int z" and "\<bar>x\<bar> < 2 ^ 1024"
  shows "round_double x = Finite x"
proof -
  define u :: rat where "u = 2 powi (exponent \<bar>x\<bar> - 52)"
  have pos: "0 < u" by (simp add: u_def)
  have q: "\<bar>x\<bar> / u = of_int z" using assms(2) by (simp add: u_def)
  then have "\<bar>x\<bar> = of_int z * u" using pos by (simp add: field_simps)
  moreover have "round_half_even (\<bar>x\<bar> / u) = z"
    by (simp only: q round_half_even_of_int)
  ultimately have "of_int (round_half_even (\<bar>x\<bar> / u)) * u = \<bar>x\<bar>" by simp
  then have "of_int (round_half_even (\<bar>x\<bar> / 2 powi (exponent \<bar>x\<bar> - 52))) * 2 powi (exponent \<bar>x\<bar> - 52) = \<bar>x\<bar>"
    by (simp only: u_def)
  with assms(1,3) show ?thesis
    by (auto simp: round_double_def Let_def)
qed

lemma exponent_of_pos_int:
  assumes "0 < n"
  shows "exponent (of_int n) = bitlen n - 1"
  using assms by (simp add: exponent_def)

lemma round_double_of_int_pos:
  assumes "0 < n" and "n \<le> 2 ^ 53"
  shows "round_double (of_int n) = Finite (of_int n)"
proof -
  define e where "e = bitlen n - 1"
  have e0: "0 \<le> e"
    using assms(1) bitlen_eq_zero_iff [of n] bitlen_nonneg [of n] by (simp add: e_def)
  have lo: "2 ^ nat e \<le> n"
    using bitlen_bounds [OF assms(1)] by (simp add: e_def)
  with assms(2) have "(2::int) ^ nat e \<le> 2 ^ 53" by linarith
  then have "nat e \<le> 53"
    by (rule power_le_imp_le_exp [rotated]) simp
  with e0 have e53: "e \<le> 53" by simp
  have abs: "\<bar>rat_of_int n\<bar> = of_int n" using assms(1) by simp
  have ex: "exponent (rat_of_int n) = e"
    using assms(1) by (simp add: exponent_def e_def)
  have "\<exists>z. rat_of_int n / 2 powi (e - 52) = of_int z"
  proof (cases "e \<le> 52")
    case True
    define d where "d = nat (52 - e)"
    have "e - 52 = - int d" using True by (simp add: d_def)
    then have "(2::rat) powi (e - 52) = 1 / 2 ^ d"
      by (simp only: power_int_minus_divide power_int_of_nat)
    then have "rat_of_int n / 2 powi (e - 52) = of_int (n * 2 ^ d)"
      by simp
    then show ?thesis by blast
  next
    case False
    with e53 have e: "e = 53" by simp
    with lo assms(2) have n: "n = 2 ^ 53" by simp
    have "rat_of_int n / 2 powi (e - 52) = of_int (2 ^ 52)"
      by (simp add: e n)
    then show ?thesis by blast
  qed
  then obtain z where z: "\<bar>rat_of_int n\<bar> / 2 powi (exponent \<bar>rat_of_int n\<bar> - 52) = of_int z"
    unfolding abs ex by blast
  have "rat_of_int n \<le> 2 ^ 53"
    using assms(2) by (metis of_int_le_iff of_int_numeral of_int_power)
  also have "\<dots> < (2::rat) ^ 1024" by simp
  finally have "\<bar>rat_of_int n\<bar> < 2 ^ 1024" unfolding abs .
  moreover have "rat_of_int n \<noteq> 0" using assms(1) by simp
  ultimately show ?thesis using z round_double_exact by blast
qed

lemma round_double_neg:
  "round_double (- x) = (case round_double x of Finite m \<Rightarrow> Finite (- m)
      | Infinity \<Rightarrow> NegInfinity | NegInfinity \<Rightarrow> Infinity | NaN \<Rightarrow> NaN)"
  by (auto simp: round_double_def Let_def)

lemma round_double_of_int:
  assumes "\<bar>n\<bar> \<le> 2 ^ 53"
  shows "round_double (of_int n) = Finite (of_int n)"
proof -
  consider "n = 0" | "0 < n" | "n < 0" by linarith
  then show ?thesis
  proof cases
    case 1
    then show ?thesis by (simp add: round_double_def)
  next
    case 2
    with assms show ?thesis by (simp add: round_double_of_int_pos)
  next
    case 3
    with assms have "round_double (of_int (- n)) = Finite (of_int (- n))"
      by (intro round_double_of_int_pos) simp_all
    then show ?thesis
      using round_double_neg [of "of_int (- n)"] by simp
  qed
qed

lemma exponent_le_19:
  assumes "0 < x" and "x < 2 ^ 20"
  shows "exponent x \<le> 19"
proof (cases "1 \<le> x")
  case True
  have "\<lfloor>x\<rfloor> < 2 ^ 20"
    using assms(2) by (simp add: floor_less_iff)
  then have "bitlen \<lfloor>x\<rfloor> \<le> 20"
    using bitlen_le_iff_power [of "\<lfloor>x\<rfloor>" 20] by simp
  with True show ?thesis by (simp add: exponent_def)
next
  case False
  have "0 \<le> bitlen (\<lceil>1 / x\<rceil> - 1)" by (rule bitlen_nonneg)
  with False show ?thesis by (simp add: exponent_def)
qed

lemma round_double_near:
  assumes "0 < x" and "x < 2 ^ 20"
  shows "\<exists>m. round_double x = Finite m \<and> 0 \<le> m \<and> \<bar>m - x\<bar> \<le> 1 / 2 ^ 34"
proof -
  define u :: rat where "u = 2 powi (exponent x - 52)"
  define m where "m = of_int (round_half_even (x / u)) * u"
  have pos: "0 < u" by (simp add: u_def)
  have "exponent x - 52 \<le> - 33" using exponent_le_19 [OF assms] by simp
  then have "u \<le> 2 powi (- 33)"
    unfolding u_def by (intro power_int_increasing) simp_all
  then have u33: "u \<le> 1 / 2 ^ 33" by (simp add: power_int_minus_divide)
  have "0 \<le> x / u" using assms(1) pos by simp
  then have "0 \<le> round_half_even (x / u)" by (rule round_half_even_nonneg)
  then have m0: "0 \<le> m" using pos by (simp add: m_def)
  have "m - x = (of_int (round_half_even (x / u)) - x / u) * u"
    using pos by (simp add: m_def field_simps)
  then have "\<bar>m - x\<bar> = \<bar>of_int (round_half_even (x / u)) - x / u\<bar> * u"
    using pos by (simp add: abs_mult)
  also have "\<dots> \<le> (1 / 2) * u"
    using round_half_even_error [of "x / u"] pos by (intro mult_right_mono) simp_all
  also have "\<dots> \<le> (1 / 2) * (1 / 2 ^ 33)"
    using u33 by simp
  finally have err: "\<bar>m - x\<bar> \<le> 1 / 2 ^ 34" by simp
  then have "m \<le> x + 1 / 2 ^ 34" by linarith
  also have "\<dots> < 2 ^ 20 + 1" using assms(2) by simp
  also have "\<dots> < (2::rat) ^ 1024" by simp
  finally have "\<not> 2 ^ 1024 \<le> m" by simp
  then have "round_double x = Finite m"
    using assms(1) by (simp add: round_double_def Let_def m_def u_def)
  with m0 err show ?thesis by blast
qed

lemma double_below_one:
  assumes "is_double u" and "0 \<le> u" and "u < 1"
  shows "u \<le> 1 - 1 / 2 ^ 53"
proof (rule ccontr)
  assume "\<not> u \<le> 1 - 1 / 2 ^ 53"
  then have big: "1 - 1 / 2 ^ 53 < u" by simp
  then have half: "1 / 2 < u" by simp
  then have upos: "0 < u" by simp
  have "1 < 1 / u" using upos assms(3) by (simp add: field_simps)
  moreover have "1 / u < 2" using upos half by (simp add: field_simps)
  ultimately have "\<lceil>1 / u\<rceil> = 2" by (intro ceiling_unique) simp_all
  then have ex: "exponent u = - 1"
    using assms(3) by (simp add: exponent_def compute_bitlen)
  define z where "z = round_half_even (u / 2 powi (- 53))"
  have "round_double u = Finite u" using assms(1) by (simp add: is_double_def)
  then have "of_int z * 2 powi (- 53) = u"
    using upos by (simp add: round_double_def Let_def ex z_def split: if_splits)
  then have eq: "of_int z = u * 2 ^ 53"
    by (simp add: power_int_minus_divide field_simps)
  have "u * 2 ^ 53 < 2 ^ 53" using assms(3) by simp
  then have "rat_of_int z < of_int (2 ^ 53)" using eq by simp
  then have up: "z < 2 ^ 53" by (simp only: of_int_less_iff)
  have "(1 - 1 / 2 ^ 53) * 2 ^ 53 < u * 2 ^ 53" using big by simp
  then have "rat_of_int (2 ^ 53 - 1) < of_int z" using eq by simp
  then have "2 ^ 53 - 1 < z" by (simp only: of_int_less_iff)
  with up show False by simp
qed

lemma round_double_20998: "round_double 20998 = Finite 20998"
  using round_double_of_int [of 20998] by simp

lemma round_double_500000: "round_double 500000 = Finite 500000"
  using round_double_of_int [of 500000] by simp

lemma is_double_half: "is_double (1 / 2)"
  unfolding is_double_def round_double_def Let_def by (simp add: double_eval)

subsection \<open>The total of an order\<close>

lemma find_product_None_iff:
  "find_product i = None \<longleftrightarrow> i \<notin> (\<lambda>p. Finite (of_int (product_id p))) ` set PRODUCTS"
  unfolding find_product_def by (auto simp: find_None_iff)





lemma get_order_append_fresh:
  "oid \<notin> order_id ` set db \<Longrightarrow> order_id r = oid \<Longrightarrow> get_order (db @ [r]) oid = Some r"
  unfolding get_order_def by (induction db) auto

lemma create_order_fresh:
  assumes "gen_orderId u \<notin> order_id ` set (orders s)"
  shows "create_order s items c u now =
           (Some (200, created_body (gen_orderId u) (json_number (calculatedTotal items))),
            s\<lparr>orders := orders s @
               [\<lparr>order_id = gen_orderId u,
                 customer_name = firstName c @ '' '' @ lastName c,
                 email = cust_email c,
                 address = cust_address c,
                 total = bind_number (calculatedTotal items),
                 status = ''pending'',
                 transaction_id = None,
                 created_at = now\<rparr>]\<rparr>)"
  using assms by (simp add: create_order_def insert_order_def Let_def)

lemma create_order_collision:
  assumes "gen_orderId u \<in> order_id ` set (orders s)"
  shows "create_order s items c u now =
           (Some (500, error_body ''Failed to create order''),
            s\<lparr>events := events s @ [console_error ''UNIQUE constraint failed: orders.id'']\<rparr>)"
  using assms by (simp add: create_order_def insert_order_def Let_def)

lemma gen_orderId_half: "gen_orderId (1 / 2) = ''EK-500000''"
  by (simp add: gen_orderId_def round_double_500000 show_int_def show_nat.simps)




subsection \<open>Order ids\<close>

lemma show_nat_not_Nil: "show_nat n \<noteq> []"
  by (subst show_nat.simps) simp

lemma digit_inj:
  assumes "a < 10" and "b < 10" and "''0123456789'' ! a = ''0123456789'' ! b"
  shows "a = b"
proof -
  have "distinct ''0123456789''" by simp
  moreover have "a < length ''0123456789''" "b < length ''0123456789''"
    using assms by simp_all
  ultimately show ?thesis
    using assms(3) by (simp only: nth_eq_iff_index_eq)
qed

lemma show_nat_inj: "show_nat n = show_nat m \<Longrightarrow> n = m"
proof (induction n arbitrary: m rule: show_nat.induct)
  case (1 n)
  show ?case
  proof (cases "n < 10")
    case small_n: True
    show ?thesis
    proof (cases "m < 10")
      case True
      with small_n "1.prems" show ?thesis
        by (subst (asm) (1 2) show_nat.simps) (simp add: digit_inj)
    next
      case False
      with small_n "1.prems" show_nat_not_Nil [of "m div 10"] show ?thesis
        by (subst (asm) (1 2) show_nat.simps) simp
    qed
  next
    case big_n: False
    show ?thesis
    proof (cases "m < 10")
      case True
      with big_n "1.prems" show_nat_not_Nil [of "n div 10"] show ?thesis
        by (subst (asm) (1 2) show_nat.simps) simp
    next
      case False
      with big_n "1.prems"
      have eq: "show_nat (n div 10) = show_nat (m div 10)"
        and d: "''0123456789'' ! (n mod 10) = ''0123456789'' ! (m mod 10)"
        by (subst (asm) (1 2) show_nat.simps, simp)+
      from "1.IH" [OF big_n eq] have "n div 10 = m div 10" .
      moreover from d have "n mod 10 = m mod 10"
        by (intro digit_inj) simp_all
      ultimately show ?thesis
        by (metis div_mult_mod_eq)
    qed
  qed
qed

text \<open>The integer a draw gives: the floor of the rounded product is between 0 and 999999.\<close>

lemma draw_integer_range:
  assumes "is_double u" and "0 \<le> u" and "u < 1"
  shows "\<exists>n\<le>999999. Math_floor (js_mul (Finite u) (Finite 1000000)) = Finite (of_nat n)"
proof (cases "u = 0")
  case True
  have "Math_floor (js_mul (Finite u) (Finite 1000000)) = Finite (of_nat 0)"
    by (simp add: True round_double_def)
  then show ?thesis by blast
next
  case False
  define x where "x = u * 1000000"
  have top: "u \<le> 1 - 1 / 2 ^ 53" using assms by (rule double_below_one)
  have x0: "0 < x" using False assms(2) by (simp add: x_def)
  have xtop: "x \<le> 1000000 - 1000000 / 2 ^ 53" using top by (simp add: x_def)
  then have "x < 2 ^ 20" by simp
  from round_double_near [OF x0 this]
  obtain m where m: "round_double x = Finite m" "0 \<le> m" "\<bar>m - x\<bar> \<le> 1 / 2 ^ 34"
    by blast
  from m(3) have "m \<le> x + 1 / 2 ^ 34" by linarith
  also have "\<dots> \<le> 1000000 - 1000000 / 2 ^ 53 + 1 / 2 ^ 34" using xtop by simp
  also have "\<dots> < 1000000" by simp
  finally have "m < 1000000" .
  then have lt: "\<lfloor>m\<rfloor> < 1000000" by (simp add: floor_less_iff)
  have ge: "0 \<le> \<lfloor>m\<rfloor>" using m(2) by simp
  define f where "f = \<lfloor>m\<rfloor>"
  have "nat f \<le> 999999" and "rat_of_int f = of_nat (nat f)"
    using lt ge unfolding f_def [symmetric] by simp_all
  moreover have "Math_floor (js_mul (Finite u) (Finite 1000000)) = Finite (of_int f)"
    using m(1) by (simp add: x_def f_def)
  ultimately show ?thesis by metis
qed

lemma gen_orderId_of_nat:
  "Math_floor (js_mul (Finite u) (Finite 1000000)) = Finite (of_nat n) \<Longrightarrow>
   gen_orderId u = ''EK-'' @ show_nat n"
  by (simp add: gen_orderId_def show_int_def)

lemma gen_orderId_eq_iff:
  assumes "is_double u" "0 \<le> u" "u < 1" and "is_double v" "0 \<le> v" "v < 1"
  shows "gen_orderId u = gen_orderId v \<longleftrightarrow>
         Math_floor (js_mul (Finite u) (Finite 1000000)) =
         Math_floor (js_mul (Finite v) (Finite 1000000))"
proof -
  from draw_integer_range [OF assms(1-3)] obtain n
    where n: "Math_floor (js_mul (Finite u) (Finite 1000000)) = Finite (of_nat n)" by blast
  from draw_integer_range [OF assms(4-6)] obtain k
    where k: "Math_floor (js_mul (Finite v) (Finite 1000000)) = Finite (of_nat k)" by blast
  have "gen_orderId u = gen_orderId v \<longleftrightarrow> show_nat n = show_nat k"
    by (simp add: gen_orderId_of_nat [OF n] gen_orderId_of_nat [OF k])
  also have "\<dots> \<longleftrightarrow> n = k"
    using show_nat_inj [of n k] by auto
  also have "\<dots> \<longleftrightarrow> Finite (rat_of_nat n) = Finite (rat_of_nat k)"
    by simp
  finally show ?thesis by (simp only: n k)
qed

text \<open>
  The product is rounded before the floor is taken: for this draw the exact product is
  just below 2359, and the id is \<open>EK-2359\<close>.
\<close>

lemma gen_orderId_rounds_product:
  "is_double (10623991520967 / 2 ^ 52)
   \<and> \<lfloor>(10623991520967 / 2 ^ 52 :: rat) * 1000000\<rfloor> = 2358
   \<and> gen_orderId (10623991520967 / 2 ^ 52) = ''EK-2359''"
proof -
  have a: "is_double (10623991520967 / 2 ^ 52)"
    unfolding is_double_def round_double_def Let_def by (simp add: double_eval)
  have b: "\<lfloor>(10623991520967 / 2 ^ 52 :: rat) * 1000000\<rfloor> = 2358"
    by (rule floor_unique) simp_all
  have "round_double (10623991520967 / 2 ^ 52 * 1000000) = Finite 2359"
    unfolding round_double_def Let_def by (simp add: double_eval)
  then have "gen_orderId (10623991520967 / 2 ^ 52) = ''EK-2359''"
    unfolding gen_orderId_def js_mul.simps
    by (simp add: show_int_def show_nat.simps)
  with a b show ?thesis by blast
qed

subsection \<open>The notifier\<close>

lemma sendOrderEmail_no_credentials:
  "falsy (GMAIL_USER env) \<or> falsy (GMAIL_APP_PASSWORD env) \<Longrightarrow>
   sendOrderEmail env order st =
     Inr [console_warn ''Gmail credentials not configured. Skipping email.'']"
  by (simp add: sendOrderEmail_def)

lemma sendOrderEmail_null_total:
  "\<not> falsy (GMAIL_USER env) \<Longrightarrow> \<not> falsy (GMAIL_APP_PASSWORD env) \<Longrightarrow> total order = None \<Longrightarrow>
   sendOrderEmail env order st =
     Inl ''TypeError: Cannot read properties of null (reading 'toLocaleString')''"
  by (simp add: sendOrderEmail_def Let_def)

lemma sendOrderEmail_resolves:
  "falsy (GMAIL_USER env) \<or> falsy (GMAIL_APP_PASSWORD env) \<or> total order \<noteq> None \<Longrightarrow>
   \<exists>evs. sendOrderEmail env order st = Inr evs"
  by (auto simp: sendOrderEmail_def Let_def split: sum.splits)

text \<open>
  With credentials and a total that is not NULL, a send that resolves is logged with the
  message sent, and a send that rejects is caught and logged as an error.
\<close>

lemma sendOrderEmail_delivery:
  assumes "\<not> falsy (GMAIL_USER env)" and "\<not> falsy (GMAIL_APP_PASSWORD env)"
    and "total order \<noteq> None"
  shows "(\<exists>m err. sendMail env m = Inl err \<and> mail_to m = email order
            \<and> sendOrderEmail env order st = Inr [console_error (''Error sending email: '' @ err)])
       \<or> (\<exists>m. sendMail env m = Inr () \<and> mail_to m = email order
            \<and> sendOrderEmail env order st =
                Inr [mail_sent m,
                     console_log (''Email sent to '' @ email order @ '' for order ''
                                  @ order_id order)])"
proof -
  define m where "m = \<lparr>mail_from = [CHR 0x22] @ ''eKart Support'' @ [CHR 0x22] @ '' <''
                                     @ the (GMAIL_USER env) @ ''>'',
                 mail_to = email order,
                 subject = (if st = success then ''Order Confirmed - '' @ order_id order
                    else ''Order Payment Failed - '' @ order_id order),
                 html = html_template env order st\<rparr>"
  have to: "mail_to m = email order" by (simp add: m_def)
  show ?thesis
  proof (cases "sendMail env m")
    case (Inl err)
    with assms have "sendOrderEmail env order st =
        Inr [console_error (''Error sending email: '' @ err)]"
      by (auto simp: sendOrderEmail_def Let_def m_def)
    with Inl to show ?thesis by blast
  next
    case (Inr u)
    with assms have "sendOrderEmail env order st =
             Inr [mail_sent m,
                  console_log (''Email sent to '' @ email order @ '' for order '' @ order_id order)]"
      by (auto simp: sendOrderEmail_def Let_def m_def)
    with Inr to show ?thesis by auto
  qed
qed

subsection \<open>The outcomes of payment verification\<close>

lemma get_order_None_iff: "get_order db orderId = None \<longleftrightarrow> orderId \<notin> order_id ` set db"
  unfolding get_order_def by (auto simp: find_None_iff)

lemma get_order_Some_D: "get_order db orderId = Some r \<Longrightarrow> r \<in> set db \<and> order_id r = orderId"
  unfolding get_order_def by (auto simp: find_Some_iff)

lemma update_paid_changes:
  "get_order db orderId = Some r \<Longrightarrow> 0 < snd (update_paid db t orderId)"
  unfolding update_paid_def get_order_def
  by (induction db) (auto split: if_splits)

lemma get_order_update_paid:
  "get_order (fst (update_paid db t orderId)) k =
     map_option (\<lambda>r. if order_id r = orderId
                      then r\<lparr>status := ''paid'', transaction_id := Some t\<rparr> else r)
       (get_order db k)"
  unfolding update_paid_def get_order_def
  by (induction db) auto

lemma verify_payment_bad_format:
  "\<not> test_12_digits tid \<Longrightarrow>
   verify_payment env s orderId tid =
     (Some (400, error_body ''Invalid Transaction ID. Must be 12 digits.''), s)"
  by (simp add: verify_payment_def)

lemma verify_payment_not_found:
  "test_12_digits tid \<Longrightarrow> get_order (orders s) orderId = None \<Longrightarrow>
   verify_payment env s orderId tid = (Some (404, error_body ''Order not found''), s)"
  by (simp add: verify_payment_def)

lemma verify_payment_non_string:
  "test_12_digits (NonStr v) \<Longrightarrow> get_order (orders s) orderId = Some order \<Longrightarrow>
   verify_payment env s orderId (NonStr v) = (None, s\<lparr>exited := True\<rparr>)"
  by (simp add: verify_payment_def)

lemma verify_payment_rejected:
  assumes "matches_12_digits t" and "get_order (orders s) orderId = Some order"
    and "\<not> startsWith t ''2026''"
  shows "(\<exists>evs. sendOrderEmail env order failed = Inr evs \<and>
            verify_payment env s orderId (Str t) =
              (Some (400, error_body
                 ''Transaction ID verification failed. For demo purposes, use an ID starting with '2026'.''),
               s\<lparr>events := events s @ evs\<rparr>))
       \<or> (\<exists>err. sendOrderEmail env order failed = Inl err \<and>
            verify_payment env s orderId (Str t) = (None, s\<lparr>exited := True\<rparr>))"
  using assms
  by (cases "sendOrderEmail env order failed")
     (simp_all add: verify_payment_def test_12_digits_def)

lemma verify_payment_accepted:
  assumes "matches_12_digits t" and "get_order (orders s) orderId = Some order"
    and "startsWith t ''2026''"
  shows "(\<exists>evs. sendOrderEmail env (order\<lparr>status := ''paid''\<rparr>) success = Inr evs \<and>
            verify_payment env s orderId (Str t) =
              (Some (200, success_body),
               s\<lparr>orders := fst (update_paid (orders s) t orderId), events := events s @ evs\<rparr>))
       \<or> (\<exists>err. sendOrderEmail env (order\<lparr>status := ''paid''\<rparr>) success = Inl err \<and>
            verify_payment env s orderId (Str t) =
              (Some (500, error_body ''Verification failed''),
               s\<lparr>orders := fst (update_paid (orders s) t orderId),
                 events := events s @ [console_error err]\<rparr>))"
proof -
  have "0 < snd (update_paid (orders s) t orderId)"
    using assms(2) by (rule update_paid_changes)
  then show ?thesis
    using assms
    by (cases "sendOrderEmail env (order\<lparr>status := ''paid''\<rparr>) success")
       (simp_all add: verify_payment_def test_12_digits_def split_beta Let_def)
qed

text \<open>The table after a verification, whatever the notifier does.\<close>

lemma verify_payment_orders:
  "orders (snd (verify_payment env s orderId tid)) =
     (if test_12_digits tid \<and> orderId \<in> order_id ` set (orders s)
         \<and> (\<exists>t. tid = Str t \<and> startsWith t ''2026'')
      then fst (update_paid (orders s) (to_string tid) orderId) else orders s)"
proof (cases "test_12_digits tid")
  case False
  then show ?thesis by (simp add: verify_payment_bad_format)
next
  case fmt: True
  show ?thesis
  proof (cases "get_order (orders s) orderId")
    case None
    then have "orderId \<notin> order_id ` set (orders s)"
      by (simp add: get_order_None_iff)
    with fmt None show ?thesis
      by (simp add: verify_payment_not_found)
  next
    case (Some order)
    then have mem: "orderId \<in> order_id ` set (orders s)"
      using get_order_None_iff [of "orders s" orderId] by simp
    show ?thesis
    proof (cases tid)
      case (NonStr v)
      with fmt Some show ?thesis by (simp add: verify_payment_non_string)
    next
      case (Str t)
      with fmt have m: "matches_12_digits t" by (simp add: test_12_digits_def)
      show ?thesis
      proof (cases "startsWith t ''2026''")
        case True
        from verify_payment_accepted [OF m Some True, of env] fmt True mem Str
        show ?thesis by auto
      next
        case False
        from verify_payment_rejected [OF m Some False, of env] fmt False Str
        show ?thesis by auto
      qed
    qed
  qed
qed

text \<open>
  When the notifier resolves for the order (no credentials, or a total that is not
  NULL), verification of a string transaction id answers as the four cases say.
\<close>

lemma verify_payment_response:
  assumes "falsy (GMAIL_USER env) \<or> falsy (GMAIL_APP_PASSWORD env)
           \<or> (\<forall>r \<in> set (orders s). total r \<noteq> None)"
  shows "fst (verify_payment env s orderId (Str t)) =
     (if \<not> matches_12_digits t
      then Some (400, error_body ''Invalid Transaction ID. Must be 12 digits.'')
      else if orderId \<notin> order_id ` set (orders s)
      then Some (404, error_body ''Order not found'')
      else if \<not> startsWith t ''2026''
      then Some (400, error_body
        ''Transaction ID verification failed. For demo purposes, use an ID starting with '2026'.'')
      else Some (200, success_body))"
proof (cases "matches_12_digits t")
  case False
  then show ?thesis by (simp add: verify_payment_bad_format test_12_digits_def)
next
  case fmt: True
  then have fmt': "test_12_digits (Str t)" by (simp add: test_12_digits_def)
  show ?thesis
  proof (cases "get_order (orders s) orderId")
    case None
    then have "orderId \<notin> order_id ` set (orders s)"
      by (simp add: get_order_None_iff)
    with fmt fmt' None show ?thesis
      by (simp add: verify_payment_not_found)
  next
    case (Some order)
    then have mem: "orderId \<in> order_id ` set (orders s)"
      using get_order_None_iff [of "orders s" orderId] by simp
    have "order \<in> set (orders s)" using Some by (simp add: get_order_Some_D)
    with assms have ok: "falsy (GMAIL_USER env) \<or> falsy (GMAIL_APP_PASSWORD env)
        \<or> total order \<noteq> None" by blast
    show ?thesis
    proof (cases "startsWith t ''2026''")
      case True
      from ok have "\<exists>evs. sendOrderEmail env (order\<lparr>status := ''paid''\<rparr>) success = Inr evs"
        by (intro sendOrderEmail_resolves) simp
      with verify_payment_accepted [OF fmt Some True, of env] fmt True mem
      show ?thesis by auto
    next
      case False
      from ok have "\<exists>evs. sendOrderEmail env order failed = Inr evs"
        by (rule sendOrderEmail_resolves)
      with verify_payment_rejected [OF fmt Some False, of env] fmt False mem
      show ?thesis by auto
    qed
  qed
qed

lemma sample_state_created:
  "snd (create_order initial [\<lparr>item_id = Finite 1, quantity = Finite 2\<rparr>] sample_customer
          (1 / 2) 1700000000) = sample_state"
  by (simp add: create_order_def insert_order_def initial_def sample_state_def sample_pending_def
      sample_customer_def gen_orderId_half calculatedTotal_def find_product_def
      PRODUCTS_def Let_def round_double_20998)

text \<open>An item for a keyboard without a quantity: the total is NaN and the row stores NULL.\<close>

lemma null_total_state_created:
  "create_order initial [\<lparr>item_id = Finite 1, quantity = NaN\<rparr>] sample_customer
          (1 / 2) 1700000000 =
     (Some (200, created_body ''EK-500000'' None), null_total_state)"
  by (simp add: create_order_def insert_order_def initial_def null_total_state_def
      null_total_pending_def sample_customer_def gen_orderId_half calculatedTotal_def
      find_product_def PRODUCTS_def Let_def)

text \<open>
  The same row from quantities that are numbers: \<^verbatim>\<open>1e400\<close> and \<^verbatim>\<open>-1e400\<close> parse to the
  infinities, and their products with the price add up to NaN.
\<close>

lemma null_total_from_infinities:
  "create_order initial
     [\<lparr>item_id = Finite 1, quantity = Infinity\<rparr>, \<lparr>item_id = Finite 1, quantity = NegInfinity\<rparr>]
     sample_customer (1 / 2) 1700000000 =
     (Some (200, created_body ''EK-500000'' None), null_total_state)"
  by (simp add: create_order_def insert_order_def initial_def null_total_state_def
      null_total_pending_def sample_customer_def gen_orderId_half calculatedTotal_def
      find_product_def PRODUCTS_def Let_def)

subsection \<open>Payment verification\<close>

text \<open>
  What holds of an accepted verification when the notifier resolves for the order: the
  answer is 200 and the stored order is paid with the given transaction id.
\<close>

lemma verify_payment_marks_paid:
  assumes "get_order (orders s) orderId = Some order"
    and "matches_12_digits t"
    and "startsWith t ''2026''"
    and "falsy (GMAIL_USER env) \<or> falsy (GMAIL_APP_PASSWORD env) \<or> total order \<noteq> None"
  shows "fst (verify_payment env s orderId (Str t)) = Some (200, success_body)
       \<and> get_order (orders (snd (verify_payment env s orderId (Str t)))) orderId =
           Some (order\<lparr>status := ''paid'', transaction_id := Some t\<rparr>)"
proof -
  from assms(4) have "\<exists>evs. sendOrderEmail env (order\<lparr>status := ''paid''\<rparr>) success = Inr evs"
    by (intro sendOrderEmail_resolves) simp
  with verify_payment_accepted [OF assms(2) assms(1) assms(3), of env]
  obtain evs where eq: "verify_payment env s orderId (Str t) =
      (Some (200, success_body),
       s\<lparr>orders := fst (update_paid (orders s) t orderId), events := events s @ evs\<rparr>)"
    by auto
  have "order_id order = orderId"
    using assms(1) by (simp add: get_order_Some_D)
  then show ?thesis
    by (simp add: eq get_order_update_paid assms(1))
qed

text \<open>
  Claim C2, at a failing input. The pending order was created by a request whose item has
  no quantity, so its total is NULL; mail credentials are configured. Verification with
  the transaction id 202600000001 updates the row to paid, then the template of the
  success email throws, and the answer is 500 instead of 200. A transaction id sent as
  the JSON number 202600000001 passes the format test, the call of \<open>startsWith\<close> throws,
  and no response is sent.
\<close>

theorem verify_payment_accepted_answers_500:
  "create_order initial [\<lparr>item_id = Finite 1, quantity = NaN\<rparr>] sample_customer (1 / 2) 1700000000
     = (Some (200, created_body ''EK-500000'' None), null_total_state)
   \<and> get_order (orders null_total_state) ''EK-500000'' = Some null_total_pending
   \<and> status null_total_pending = ''pending''
   \<and> matches_12_digits ''202600000001'' \<and> startsWith ''202600000001'' ''2026''
   \<and> fst (verify_payment env_delivering null_total_state ''EK-500000'' (Str ''202600000001''))
       = Some (500, error_body ''Verification failed'')
   \<and> get_order (orders (snd (verify_payment env_delivering null_total_state ''EK-500000''
         (Str ''202600000001'')))) ''EK-500000''
       = Some (null_total_pending\<lparr>status := ''paid'', transaction_id := Some ''202600000001''\<rparr>)
   \<and> verify_payment env_delivering sample_state ''EK-500000'' (NonStr ''202600000001'')
       = (None, sample_state\<lparr>exited := True\<rparr>)"
proof -
  have a: "get_order (orders null_total_state) ''EK-500000'' = Some null_total_pending"
    by (simp add: null_total_state_def null_total_pending_def get_order_def)
  have b: "status null_total_pending = ''pending''"
    by (simp add: null_total_pending_def)
  have c: "matches_12_digits ''202600000001''"
    by (simp add: matches_12_digits_def is_digit_def)
  have d: "startsWith ''202600000001'' ''2026''"
    by (simp add: startsWith_def)
  have e: "sendOrderEmail env_delivering (null_total_pending\<lparr>status := ''paid''\<rparr>) success =
      Inl ''TypeError: Cannot read properties of null (reading 'toLocaleString')''"
    by (rule sendOrderEmail_null_total)
       (simp_all add: env_delivering_def falsy_def null_total_pending_def)
  from verify_payment_accepted [OF c a d, of env_delivering] e
  have f: "verify_payment env_delivering null_total_state ''EK-500000'' (Str ''202600000001'') =
      (Some (500, error_body ''Verification failed''),
       null_total_state\<lparr>orders := fst (update_paid (orders null_total_state) ''202600000001''
                                          ''EK-500000''),
         events := events null_total_state @
           [console_error ''TypeError: Cannot read properties of null (reading 'toLocaleString')'']\<rparr>)"
    by simp
  have g: "get_order (orders (snd (verify_payment env_delivering null_total_state ''EK-500000''
         (Str ''202600000001'')))) ''EK-500000''
       = Some (null_total_pending\<lparr>status := ''paid'', transaction_id := Some ''202600000001''\<rparr>)"
    by (simp add: f get_order_update_paid a) (simp add: null_total_pending_def)
  have h: "get_order (orders sample_state) ''EK-500000'' = Some sample_pending"
    by (simp add: sample_state_def sample_pending_def get_order_def)
  have i: "test_12_digits (NonStr ''202600000001'')"
    using c by (simp add: test_12_digits_def)
  note verify_payment_non_string [OF i h, of env_delivering]
  with null_total_state_created a b c d f g show ?thesis by simp
qed

text \<open>
  What holds of a verification rejected by the prefix rule when the notifier resolves
  for the order: the answer is 400, the table is as before, and a later accepted
  verification answers 200.
\<close>

lemma verify_payment_rejects_prefix:
  assumes "get_order (orders s) orderId = Some order"
    and "status order = ''pending''"
    and "matches_12_digits t"
    and "\<not> startsWith t ''2026''"
    and "falsy (GMAIL_USER env) \<or> falsy (GMAIL_APP_PASSWORD env) \<or> total order \<noteq> None"
  shows "fst (verify_payment env s orderId (Str t)) =
           Some (400, error_body
             ''Transaction ID verification failed. For demo purposes, use an ID starting with '2026'.'')
       \<and> orders (snd (verify_payment env s orderId (Str t))) = orders s
       \<and> exited (snd (verify_payment env s orderId (Str t))) = exited s
       \<and> (\<exists>r. get_order (orders (snd (verify_payment env s orderId (Str t)))) orderId = Some r
              \<and> status r = ''pending'')"
proof -
  from assms(5) have "\<exists>evs. sendOrderEmail env order failed = Inr evs"
    by (rule sendOrderEmail_resolves)
  with verify_payment_rejected [OF assms(3) assms(1) assms(4), of env]
  obtain evs where eq: "verify_payment env s orderId (Str t) =
      (Some (400, error_body
         ''Transaction ID verification failed. For demo purposes, use an ID starting with '2026'.''),
       s\<lparr>events := events s @ evs\<rparr>)"
    by auto
  show ?thesis
    using assms(1) assms(2) by (simp add: eq)
qed

text \<open>
  Claim C3, at a failing input. The pending order has a NULL total and mail credentials
  are configured. Verification with the twelve digits 123456789012 awaits the failure
  email outside any \<open>try\<close>; its template throws, so no 400 is sent and the process
  exits: the order is still pending in the table, but a second verification, with an
  accepted transaction id, is not answered.
\<close>

theorem verify_payment_rejected_no_response:
  "get_order (orders null_total_state) ''EK-500000'' = Some null_total_pending
   \<and> status null_total_pending = ''pending''
   \<and> matches_12_digits ''123456789012'' \<and> \<not> startsWith ''123456789012'' ''2026''
   \<and> verify_payment env_delivering null_total_state ''EK-500000'' (Str ''123456789012'')
       = (None, null_total_state\<lparr>exited := True\<rparr>)
   \<and> handle env_delivering (null_total_state\<lparr>exited := True\<rparr>)
        (POST_verify_payment ''EK-500000'' (Str ''202600000001''))
       = (None, null_total_state\<lparr>exited := True\<rparr>)"
proof -
  have a: "get_order (orders null_total_state) ''EK-500000'' = Some null_total_pending"
    by (simp add: null_total_state_def null_total_pending_def get_order_def)
  have b: "status null_total_pending = ''pending''"
    by (simp add: null_total_pending_def)
  have c: "matches_12_digits ''123456789012''"
    by (simp add: matches_12_digits_def is_digit_def)
  have d: "\<not> startsWith ''123456789012'' ''2026''"
    by (simp add: startsWith_def)
  have e: "sendOrderEmail env_delivering null_total_pending failed =
      Inl ''TypeError: Cannot read properties of null (reading 'toLocaleString')''"
    by (rule sendOrderEmail_null_total)
       (simp_all add: env_delivering_def falsy_def null_total_pending_def)
  from verify_payment_rejected [OF c a d, of env_delivering] e
  have "verify_payment env_delivering null_total_state ''EK-500000'' (Str ''123456789012'')
       = (None, null_total_state\<lparr>exited := True\<rparr>)"
    by simp
  with a b c d show ?thesis by simp
qed

text \<open>
  Claim C5. A transaction id that does not match \<^verbatim>\<open>^\d{12}$\<close> is answered 400, whatever
  the order id and whatever the table holds, and nothing changes.
\<close>

theorem verify_payment_format_400:
  "\<not> test_12_digits tid \<Longrightarrow>
   verify_payment env s orderId tid =
     (Some (400, error_body ''Invalid Transaction ID. Must be 12 digits.''), s)"
  by (simp add: verify_payment_def)

theorem verify_payment_format_400_witness:
  "\<not> test_12_digits (Str ''2026-0000001'')
   \<and> \<not> test_12_digits (Str ''2026000000012'')
   \<and> \<not> test_12_digits (NonStr ''null'')
   \<and> get_order (orders sample_state) ''EK-500000'' = Some sample_pending
   \<and> verify_payment env_delivering sample_state ''EK-500000'' (Str ''2026-0000001'') =
       (Some (400, error_body ''Invalid Transaction ID. Must be 12 digits.''), sample_state)
   \<and> get_order (orders initial) ''EK-500000'' = None
   \<and> verify_payment env_delivering initial ''EK-500000'' (Str ''2026000000012'') =
       (Some (400, error_body ''Invalid Transaction ID. Must be 12 digits.''), initial)
   \<and> verify_payment env_delivering null_total_state ''EK-500000'' (NonStr ''null'') =
       (Some (400, error_body ''Invalid Transaction ID. Must be 12 digits.''), null_total_state)"
proof -
  have a: "\<not> test_12_digits (Str ''2026-0000001'')"
    by (simp add: test_12_digits_def matches_12_digits_def is_digit_def)
  have b: "\<not> test_12_digits (Str ''2026000000012'')"
    by (simp add: test_12_digits_def matches_12_digits_def)
  have b': "\<not> test_12_digits (NonStr ''null'')"
    by (simp add: test_12_digits_def matches_12_digits_def)
  have c: "get_order (orders sample_state) ''EK-500000'' = Some sample_pending"
    by (simp add: sample_state_def sample_pending_def get_order_def)
  have d: "get_order (orders initial) ''EK-500000'' = None"
    by (simp add: initial_def get_order_def)
  from verify_payment_format_400 [OF a, of env_delivering sample_state "''EK-500000''"]
    verify_payment_format_400 [OF b, of env_delivering initial "''EK-500000''"]
    verify_payment_format_400 [OF b', of env_delivering null_total_state "''EK-500000''"]
    a b b' c d
  show ?thesis by simp
qed

text \<open>
  Claim C6. When the transaction id passes the format check and the table has no order
  with the given id, the answer is 404, whether or not the transaction id starts with
  2026.
\<close>

theorem verify_payment_unknown_order_404:
  "test_12_digits tid \<Longrightarrow> orderId \<notin> order_id ` set (orders s) \<Longrightarrow>
   verify_payment env s orderId tid = (Some (404, error_body ''Order not found''), s)"
  by (simp add: verify_payment_not_found get_order_None_iff)

theorem verify_payment_unknown_order_404_witness:
  "test_12_digits (Str ''202600000001'') \<and> startsWith ''202600000001'' ''2026''
   \<and> test_12_digits (Str ''123456789012'') \<and> \<not> startsWith ''123456789012'' ''2026''
   \<and> test_12_digits (NonStr ''202600000001'')
   \<and> ''EK-7'' \<notin> order_id ` set (orders sample_state)
   \<and> verify_payment env_delivering sample_state ''EK-7'' (Str ''202600000001'') =
       (Some (404, error_body ''Order not found''), sample_state)
   \<and> verify_payment env_delivering sample_state ''EK-7'' (Str ''123456789012'') =
       (Some (404, error_body ''Order not found''), sample_state)
   \<and> verify_payment env_delivering sample_state ''EK-7'' (NonStr ''202600000001'') =
       (Some (404, error_body ''Order not found''), sample_state)"
proof -
  have a: "test_12_digits (Str ''202600000001'')" "test_12_digits (Str ''123456789012'')"
    "test_12_digits (NonStr ''202600000001'')"
    by (simp_all add: test_12_digits_def matches_12_digits_def is_digit_def)
  have b: "startsWith ''202600000001'' ''2026''" "\<not> startsWith ''123456789012'' ''2026''"
    by (simp_all add: startsWith_def)
  have c: "''EK-7'' \<notin> order_id ` set (orders sample_state)"
    by (simp add: sample_state_def sample_pending_def)
  from verify_payment_unknown_order_404 [OF a(1) c, of env_delivering]
    verify_payment_unknown_order_404 [OF a(2) c, of env_delivering]
    verify_payment_unknown_order_404 [OF a(3) c, of env_delivering] a b c
  show ?thesis by simp
qed

text \<open>
  Claim C10. A verification that is rejected, because the transaction id is malformed,
  the order is unknown or the transaction id does not start with 2026, leaves the
  table as it was, whatever is answered. The only change verification ever makes to the
  table is setting status and transaction id of the rows with the given id, for a
  string transaction id of twelve digits that starts with 2026 and an order in the
  table.
\<close>

theorem verify_payment_rejection_keeps_table:
  "(\<not> test_12_digits tid \<longrightarrow>
      verify_payment env s orderId tid =
        (Some (400, error_body ''Invalid Transaction ID. Must be 12 digits.''), s))
   \<and> (test_12_digits tid \<and> orderId \<notin> order_id ` set (orders s) \<longrightarrow>
      verify_payment env s orderId tid = (Some (404, error_body ''Order not found''), s))
   \<and> (\<not> test_12_digits tid \<or> orderId \<notin> order_id ` set (orders s)
        \<or> (\<forall>t. tid = Str t \<longrightarrow> \<not> startsWith t ''2026'') \<longrightarrow>
      orders (snd (verify_payment env s orderId tid)) = orders s)
   \<and> (orders (snd (verify_payment env s orderId tid)) = orders s
       \<or> (\<exists>t. tid = Str t \<and> matches_12_digits t \<and> startsWith t ''2026''
              \<and> orderId \<in> order_id ` set (orders s)
              \<and> orders (snd (verify_payment env s orderId tid)) =
                  map (\<lambda>r. if order_id r = orderId
                            then r\<lparr>status := ''paid'', transaction_id := Some t\<rparr> else r)
                    (orders s)))"
proof (intro conjI impI)
  show "verify_payment env s orderId tid =
        (Some (400, error_body ''Invalid Transaction ID. Must be 12 digits.''), s)"
    if "\<not> test_12_digits tid"
    using that by (rule verify_payment_bad_format)
  show "verify_payment env s orderId tid = (Some (404, error_body ''Order not found''), s)"
    if "test_12_digits tid \<and> orderId \<notin> order_id ` set (orders s)"
    using that by (simp add: verify_payment_not_found get_order_None_iff)
  show "orders (snd (verify_payment env s orderId tid)) = orders s"
    if "\<not> test_12_digits tid \<or> orderId \<notin> order_id ` set (orders s)
        \<or> (\<forall>t. tid = Str t \<longrightarrow> \<not> startsWith t ''2026'')"
    using that by (auto simp: verify_payment_orders)
  show "orders (snd (verify_payment env s orderId tid)) = orders s
       \<or> (\<exists>t. tid = Str t \<and> matches_12_digits t \<and> startsWith t ''2026''
              \<and> orderId \<in> order_id ` set (orders s)
              \<and> orders (snd (verify_payment env s orderId tid)) =
                  map (\<lambda>r. if order_id r = orderId
                            then r\<lparr>status := ''paid'', transaction_id := Some t\<rparr> else r)
                    (orders s))"
    by (auto simp: verify_payment_orders update_paid_def test_12_digits_def)
qed

theorem verify_payment_rejection_keeps_table_witness:
  "\<not> test_12_digits (Str ''abc'')
   \<and> orders (snd (verify_payment env_delivering null_total_state ''EK-500000'' (Str ''abc'')))
       = orders null_total_state
   \<and> \<not> startsWith ''123456789012'' ''2026''
   \<and> orders (snd (verify_payment env_delivering null_total_state ''EK-500000''
         (Str ''123456789012''))) = orders null_total_state"
proof -
  have b: "\<not> test_12_digits (Str ''abc'')"
    by (simp add: test_12_digits_def matches_12_digits_def)
  have c: "\<not> startsWith ''123456789012'' ''2026''"
    by (simp add: startsWith_def)
  have "orders (snd (verify_payment env_delivering null_total_state ''EK-500000'' (Str ''abc'')))
       = orders null_total_state"
    using verify_payment_rejection_keeps_table
            [of "Str ''abc''" env_delivering null_total_state "''EK-500000''"] b
    by blast
  moreover have "orders (snd (verify_payment env_delivering null_total_state ''EK-500000''
         (Str ''123456789012''))) = orders null_total_state"
    using verify_payment_rejection_keeps_table
            [of "Str ''123456789012''" env_delivering null_total_state "''EK-500000''"] c
    by simp
  ultimately show ?thesis using b c by blast
qed

subsection \<open>Listing\<close>

text \<open>
  Claim C7. Listing answers 200 with every row of the table, each as often as the table
  holds it, ordered by \<open>created_at\<close> from newest to oldest, and leaves the state as it
  was.
\<close>

theorem list_orders_newest_first:
  "\<exists>rows. list_orders s = (Some (200, orders_body rows), s)
      \<and> mset rows = mset (orders s)
      \<and> sorted_wrt (\<lambda>a b. created_at b \<le> created_at a) rows"
proof -
  have "sorted (map created_at (sort_key created_at (rev (orders s))))"
    by (rule sorted_sort_key)
  then have "sorted_wrt (\<lambda>a b. created_at a \<le> created_at b)
               (sort_key created_at (rev (orders s)))"
    by (simp add: sorted_map)
  then have "sorted_wrt (\<lambda>a b. created_at b \<le> created_at a) (select_orders_desc (orders s))"
    by (simp add: select_orders_desc_def sorted_wrt_rev)
  moreover have "mset (select_orders_desc (orders s)) = mset (orders s)"
    by (simp add: select_orders_desc_def)
  ultimately show ?thesis
    by (simp add: list_orders_def)
qed

theorem list_orders_newest_first_witness:
  "list_orders \<lparr>orders = [sample_pending\<lparr>order_id := ''EK-1'', created_at := 20\<rparr>,
                          sample_pending\<lparr>order_id := ''EK-2'', created_at := 30\<rparr>,
                          sample_pending\<lparr>order_id := ''EK-3'', created_at := 10\<rparr>,
                          sample_pending\<lparr>order_id := ''EK-4'', created_at := 20\<rparr>],
                events = [], exited = False\<rparr> =
     (Some (200, orders_body [sample_pending\<lparr>order_id := ''EK-2'', created_at := 30\<rparr>,
                              sample_pending\<lparr>order_id := ''EK-1'', created_at := 20\<rparr>,
                              sample_pending\<lparr>order_id := ''EK-4'', created_at := 20\<rparr>,
                              sample_pending\<lparr>order_id := ''EK-3'', created_at := 10\<rparr>]),
      \<lparr>orders = [sample_pending\<lparr>order_id := ''EK-1'', created_at := 20\<rparr>,
                 sample_pending\<lparr>order_id := ''EK-2'', created_at := 30\<rparr>,
                 sample_pending\<lparr>order_id := ''EK-3'', created_at := 10\<rparr>,
                 sample_pending\<lparr>order_id := ''EK-4'', created_at := 20\<rparr>],
       events = [], exited = False\<rparr>)"
  using list_orders_newest_first
    [of "\<lparr>orders = [sample_pending\<lparr>order_id := ''EK-1'', created_at := 20\<rparr>,
                          sample_pending\<lparr>order_id := ''EK-2'', created_at := 30\<rparr>,
                          sample_pending\<lparr>order_id := ''EK-3'', created_at := 10\<rparr>,
                          sample_pending\<lparr>order_id := ''EK-4'', created_at := 20\<rparr>],
                events = [], exited = False\<rparr>"]
  by (simp add: list_orders_def select_orders_desc_def)

subsection \<open>The notifier and the responses\<close>

text \<open>
  What holds when every total in the table is a number: the response of every request
  with a string transaction id, and the table after it, are the same under any two
  mail environments, and a response is sent.
\<close>

lemma response_independent_of_mail:
  assumes "\<forall>r \<in> set (orders s). total r \<noteq> None" and "\<not> exited s"
    and "\<forall>orderId v. rq \<noteq> POST_verify_payment orderId (NonStr v)"
  shows "fst (handle env s rq) = fst (handle env' s rq)
       \<and> orders (snd (handle env s rq)) = orders (snd (handle env' s rq))
       \<and> fst (handle env s rq) \<noteq> None"
proof (cases rq)
  case GET_admin_orders
  with assms(2) show ?thesis by (simp add: list_orders_def)
next
  case (POST_orders items c u now)
  with assms(2) show ?thesis
    by (simp add: create_order_def Let_def split: sum.splits)
next
  case (POST_verify_payment orderId tid)
  with assms(3) obtain t where t: "tid = Str t" by (cases tid) auto
  from assms(1) have "fst (verify_payment env s orderId (Str t)) =
      fst (verify_payment env' s orderId (Str t))"
    by (simp add: verify_payment_response)
  moreover from assms(1) have "fst (verify_payment env s orderId (Str t)) \<noteq> None"
    by (simp add: verify_payment_response)
  ultimately show ?thesis
    using assms(2) by (simp add: POST_verify_payment t verify_payment_orders)
qed

text \<open>
  Claim C9, at a failing input. The pending order has a NULL total (its item had no
  quantity). Without credentials \<open>sendOrderEmail\<close> returns before the template and
  verification answers 200 for an accepted and 400 for a rejected transaction id. With
  credentials the template throws before the \<open>try\<close>, the promise rejects, and the same
  two requests are answered 500 and not at all.
\<close>

theorem email_failure_changes_response:
  "create_order initial [\<lparr>item_id = Finite 1, quantity = NaN\<rparr>] sample_customer (1 / 2) 1700000000
     = (Some (200, created_body ''EK-500000'' None), null_total_state)
   \<and> sendOrderEmail env_no_credentials null_total_pending failed =
       Inr [console_warn ''Gmail credentials not configured. Skipping email.'']
   \<and> sendOrderEmail env_delivering null_total_pending failed =
       Inl ''TypeError: Cannot read properties of null (reading 'toLocaleString')''
   \<and> fst (verify_payment env_no_credentials null_total_state ''EK-500000'' (Str ''202600000001''))
       = Some (200, success_body)
   \<and> fst (verify_payment env_delivering null_total_state ''EK-500000'' (Str ''202600000001''))
       = Some (500, error_body ''Verification failed'')
   \<and> fst (verify_payment env_no_credentials null_total_state ''EK-500000'' (Str ''123456789012''))
       = Some (400, error_body
          ''Transaction ID verification failed. For demo purposes, use an ID starting with '2026'.'')
   \<and> fst (verify_payment env_delivering null_total_state ''EK-500000'' (Str ''123456789012''))
       = None"
proof -
  have a: "get_order (orders null_total_state) ''EK-500000'' = Some null_total_pending"
    by (simp add: null_total_state_def null_total_pending_def get_order_def)
  have c: "matches_12_digits ''202600000001''" "matches_12_digits ''123456789012''"
    by (simp_all add: matches_12_digits_def is_digit_def)
  have d: "startsWith ''202600000001'' ''2026''" "\<not> startsWith ''123456789012'' ''2026''"
    by (simp_all add: startsWith_def)
  have no: "falsy (GMAIL_USER env_no_credentials)"
    by (simp add: env_no_credentials_def falsy_def)
  have e1: "sendOrderEmail env_no_credentials order st =
       Inr [console_warn ''Gmail credentials not configured. Skipping email.'']" for order st
    using no by (simp add: sendOrderEmail_no_credentials)
  have e2: "sendOrderEmail env_delivering null_total_pending failed =
       Inl ''TypeError: Cannot read properties of null (reading 'toLocaleString')''"
    "sendOrderEmail env_delivering (null_total_pending\<lparr>status := ''paid''\<rparr>) success =
       Inl ''TypeError: Cannot read properties of null (reading 'toLocaleString')''"
    by (rule sendOrderEmail_null_total,
        simp_all add: env_delivering_def falsy_def null_total_pending_def)+
  have r1: "fst (verify_payment env_no_credentials null_total_state ''EK-500000''
                  (Str ''202600000001'')) = Some (200, success_body)"
    using verify_payment_accepted [OF c(1) a d(1), of env_no_credentials] e1 by auto
  have r2: "fst (verify_payment env_delivering null_total_state ''EK-500000''
                  (Str ''202600000001'')) = Some (500, error_body ''Verification failed'')"
    using verify_payment_accepted [OF c(1) a d(1), of env_delivering] e2 by auto
  have r3: "fst (verify_payment env_no_credentials null_total_state ''EK-500000''
                  (Str ''123456789012'')) = Some (400, error_body
          ''Transaction ID verification failed. For demo purposes, use an ID starting with '2026'.'')"
    using verify_payment_rejected [OF c(2) a d(2), of env_no_credentials] e1 by auto
  have r4: "fst (verify_payment env_delivering null_total_state ''EK-500000''
                  (Str ''123456789012'')) = None"
    using verify_payment_rejected [OF c(2) a d(2), of env_delivering] e2 by auto
  from null_total_state_created e1 e2(1) r1 r2 r3 r4 show ?thesis by simp
qed

subsection \<open>Uniqueness of order ids\<close>

lemma order_ids_update_paid: "map order_id (fst (update_paid db t orderId)) = map order_id db"
  by (simp add: update_paid_def)

lemma handle_keeps_ids_distinct:
  assumes "distinct (map order_id (orders s))"
  shows "distinct (map order_id (orders (snd (handle env s rq))))"
proof (cases rq)
  case GET_admin_orders
  with assms show ?thesis by (simp add: list_orders_def)
next
  case (POST_orders items c u now)
  show ?thesis
  proof (cases "gen_orderId u \<in> order_id ` set (orders s)")
    case True
    with assms POST_orders show ?thesis by (simp add: create_order_collision)
  next
    case False
    with assms POST_orders show ?thesis by (simp add: create_order_fresh)
  qed
next
  case (POST_verify_payment orderId t)
  with assms show ?thesis
    by (simp add: verify_payment_orders order_ids_update_paid)
qed

lemma run_keeps_ids_distinct:
  "distinct (map order_id (orders s)) \<Longrightarrow> distinct (map order_id (orders (run s rqs)))"
proof (induction rqs arbitrary: s)
  case Nil
  then show ?case by simp
next
  case (Cons a rqs)
  obtain env rq where a: "a = (env, rq)" by (cases a)
  from Cons.prems have "distinct (map order_id (orders (snd (handle env s rq))))"
    by (rule handle_keeps_ids_distinct)
  then show ?case unfolding a by (simp add: Cons.IH)
qed

text \<open>
  Claim C8 does not hold as stated: two creations can generate the same id (here from
  two different draws, both doubles in [0, 1)); the second INSERT then fails and the
  creation answers 500.
\<close>

theorem generated_order_id_collision:
  "is_double (1 / 2) \<and> is_double (1 / 2 + 1 / 2 ^ 30)
   \<and> gen_orderId (1 / 2) = gen_orderId (1 / 2 + 1 / 2 ^ 30)
   \<and> fst (create_order initial [\<lparr>item_id = Finite 1, quantity = Finite 2\<rparr>] sample_customer
             (1 / 2) 1700000000)
       = Some (200, created_body ''EK-500000'' (Some 20998))
   \<and> create_order
        (snd (create_order initial [\<lparr>item_id = Finite 1, quantity = Finite 2\<rparr>] sample_customer
                (1 / 2) 1700000000))
        [\<lparr>item_id = Finite 3, quantity = Finite 1\<rparr>] sample_customer (1 / 2 + 1 / 2 ^ 30) 1700000060
       = (Some (500, error_body ''Failed to create order''),
          sample_state\<lparr>events := [console_error ''UNIQUE constraint failed: orders.id'']\<rparr>)"
proof -
  have d: "is_double (1 / 2 + 1 / 2 ^ 30)"
    unfolding is_double_def round_double_def Let_def by (simp add: double_eval)
  have "round_double ((1 / 2 + 1 / 2 ^ 30) * 1000000) = Finite (500000 + 15625 / 2 ^ 24)"
    unfolding round_double_def Let_def by (simp add: double_eval)
  moreover have "\<lfloor>500000 + 15625 / 2 ^ 24 :: rat\<rfloor> = 500000"
    by (rule floor_unique) simp_all
  ultimately have b: "gen_orderId (1 / 2 + 1 / 2 ^ 30) = ''EK-500000''"
    unfolding gen_orderId_def js_mul.simps
    by (simp add: show_int_def show_nat.simps)
  have c: "fst (create_order initial [\<lparr>item_id = Finite 1, quantity = Finite 2\<rparr>] sample_customer
             (1 / 2) 1700000000)
       = Some (200, created_body ''EK-500000'' (Some 20998))"
    by (simp add: create_order_def insert_order_def initial_def gen_orderId_half
        calculatedTotal_def find_product_def PRODUCTS_def Let_def round_double_20998)
  have b': "gen_orderId (536870913 / 1073741824) = ''EK-500000''"
    using b by simp
  have d': "is_double (536870913 / 1073741824)"
    using d by simp
  have "gen_orderId (536870913 / 1073741824) \<in> order_id ` set (orders sample_state)"
    by (simp add: b' sample_state_def sample_pending_def)
  from create_order_collision [OF this] b' c d' is_double_half show ?thesis
    by (simp add: sample_state_created sample_state_def gen_orderId_half)
qed

text \<open>
  Claim C8, amended. For a draw \<open>u\<close>, a double with \<open>0 \<le> u < 1\<close>, the generated id is
  \<open>EK-\<close> followed by the decimal digits of an integer between 0 and 999999, the floor
  of the rounded product of \<open>u\<close> and 1000000, and two draws generate the same id exactly
  when they give the same integer. Ids are unique among the stored orders: a creation
  answers 200 only if its id was not in the table, a creation whose id is in the table
  answers 500 and stores nothing, and the ids of the table are pairwise different after
  any sequence of requests.
\<close>

theorem order_ids_form_and_uniqueness:
  "(is_double u \<and> 0 \<le> u \<and> u < 1 \<longrightarrow>
      (\<exists>n\<le>999999. Math_floor (js_mul (Finite u) (Finite 1000000)) = Finite (of_nat n)
                  \<and> gen_orderId u = ''EK-'' @ show_nat n))
   \<and> (is_double u \<and> 0 \<le> u \<and> u < 1 \<and> is_double v \<and> 0 \<le> v \<and> v < 1 \<longrightarrow>
        (gen_orderId u = gen_orderId v \<longleftrightarrow>
           Math_floor (js_mul (Finite u) (Finite 1000000)) =
           Math_floor (js_mul (Finite v) (Finite 1000000))))
   \<and> (\<forall>oid t. fst (create_order s items c u now) = Some (200, created_body oid t) \<longrightarrow>
        oid = gen_orderId u \<and> oid \<notin> order_id ` set (orders s))
   \<and> (gen_orderId u \<in> order_id ` set (orders s) \<longrightarrow>
        fst (create_order s items c u now) = Some (500, error_body ''Failed to create order'')
        \<and> orders (snd (create_order s items c u now)) = orders s)
   \<and> distinct (map order_id (orders (run initial rqs)))"
proof (intro conjI allI impI)
  assume u: "is_double u \<and> 0 \<le> u \<and> u < 1"
  with draw_integer_range [of u] obtain n where n: "n \<le> 999999"
    "Math_floor (js_mul (Finite u) (Finite 1000000)) = Finite (of_nat n)" by blast
  with gen_orderId_of_nat [OF n(2)]
  show "\<exists>n\<le>999999. Math_floor (js_mul (Finite u) (Finite 1000000)) = Finite (of_nat n)
                  \<and> gen_orderId u = ''EK-'' @ show_nat n" by blast
next
  assume "is_double u \<and> 0 \<le> u \<and> u < 1 \<and> is_double v \<and> 0 \<le> v \<and> v < 1"
  then show "gen_orderId u = gen_orderId v \<longleftrightarrow>
           Math_floor (js_mul (Finite u) (Finite 1000000)) =
           Math_floor (js_mul (Finite v) (Finite 1000000))"
    by (intro gen_orderId_eq_iff) simp_all
next
  fix oid t
  assume ok: "fst (create_order s items c u now) = Some (200, created_body oid t)"
  show fresh: "oid \<notin> order_id ` set (orders s)" "oid = gen_orderId u"
  proof -
    have f: "gen_orderId u \<notin> order_id ` set (orders s)"
    proof
      assume "gen_orderId u \<in> order_id ` set (orders s)"
      from create_order_collision [OF this] ok show False by simp
    qed
    from ok create_order_fresh [OF f, of items c now] show "oid = gen_orderId u" by simp
    with f show "oid \<notin> order_id ` set (orders s)" by simp
  qed
next
  assume "gen_orderId u \<in> order_id ` set (orders s)"
  then show "fst (create_order s items c u now) = Some (500, error_body ''Failed to create order'')"
    and "orders (snd (create_order s items c u now)) = orders s"
    by (simp_all add: create_order_collision)
next
  have "distinct (map order_id (orders initial))" by (simp add: initial_def)
  then show "distinct (map order_id (orders (run initial rqs)))"
    by (rule run_keeps_ids_distinct)
qed

theorem order_ids_form_and_uniqueness_witness:
  "is_double (1 / 2) \<and> (0::rat) \<le> 1 / 2 \<and> (1 / 2 :: rat) < 1
   \<and> (\<exists>n\<le>999999. Math_floor (js_mul (Finite (1 / 2)) (Finite 1000000)) = Finite (of_nat n)
                  \<and> gen_orderId (1 / 2) = ''EK-'' @ show_nat n)
   \<and> gen_orderId (1 / 2) = ''EK-500000''
   \<and> gen_orderId (1 / 2) \<in> order_id ` set (orders sample_state)
   \<and> fst (create_order sample_state [] sample_customer (1 / 2) 1700000060)
       = Some (500, error_body ''Failed to create order'')
   \<and> orders (snd (create_order sample_state [] sample_customer (1 / 2) 1700000060))
       = orders sample_state"
proof -
  have b: "gen_orderId (1 / 2) \<in> order_id ` set (orders sample_state)"
    by (simp add: gen_orderId_half sample_state_def sample_pending_def)
  have c: "is_double (1 / 2) \<and> (0::rat) \<le> 1 / 2 \<and> (1 / 2 :: rat) < 1"
    using is_double_half by simp
  note inst = order_ids_form_and_uniqueness
               [of "1 / 2" "1 / 2" sample_state "[]" sample_customer 1700000060 "[]"]
  from inst c
  have "\<exists>n\<le>999999. Math_floor (js_mul (Finite (1 / 2)) (Finite 1000000)) = Finite (of_nat n)
                  \<and> gen_orderId (1 / 2) = ''EK-'' @ show_nat n" by blast
  moreover from inst b
  have "fst (create_order sample_state [] sample_customer (1 / 2) 1700000060)
       = Some (500, error_body ''Failed to create order'')
   \<and> orders (snd (create_order sample_state [] sample_customer (1 / 2) 1700000060))
       = orders sample_state" by blast
  ultimately show ?thesis using gen_orderId_half b c by blast
qed

subsection \<open>The life of an order\<close>

lemma get_order_append:
  "get_order db k = Some r \<Longrightarrow> get_order (db @ [x]) k = Some r"
  unfolding get_order_def by (induction db) auto

lemma verify_payment_row:
  assumes "get_order (orders s) k = Some r"
  shows "get_order (orders (snd (verify_payment env s orderId tid))) k =
           Some (if test_12_digits tid \<and> (\<exists>t. tid = Str t \<and> startsWith t ''2026'') \<and> orderId = k
                 then r\<lparr>status := ''paid'', transaction_id := Some (to_string tid)\<rparr> else r)"
proof -
  have k: "order_id r = k" and mem: "k \<in> order_id ` set (orders s)"
    using assms get_order_Some_D [of "orders s" k r] by auto
  show ?thesis
    using assms k mem
    by (auto simp: verify_payment_orders get_order_update_paid)
qed

lemma handle_row:
  assumes "get_order (orders s) k = Some r"
  shows "\<exists>r'. get_order (orders (snd (handle env s rq))) k = Some r'
           \<and> (r' = r
               \<or> (\<exists>t. rq = POST_verify_payment k (Str t) \<and> matches_12_digits t
                     \<and> startsWith t ''2026''
                     \<and> r' = r\<lparr>status := ''paid'', transaction_id := Some t\<rparr>))"
proof (cases "exited s")
  case True
  with assms show ?thesis by (cases rq) simp_all
next
  case alive: False
  show ?thesis
  proof (cases rq)
    case GET_admin_orders
    with assms alive show ?thesis by (simp add: list_orders_def)
  next
    case (POST_orders items c u now)
    show ?thesis
    proof (cases "gen_orderId u \<in> order_id ` set (orders s)")
      case True
      with assms alive POST_orders show ?thesis by (simp add: create_order_collision)
    next
      case False
      with assms alive POST_orders show ?thesis
        by (simp add: create_order_fresh get_order_append)
    qed
  next
    case (POST_verify_payment orderId tid)
    with verify_payment_row [OF assms, of env orderId tid] alive show ?thesis
      by (auto simp: test_12_digits_def)
  qed
qed

lemma run_paid_stays_paid:
  "get_order (orders s) k = Some r \<Longrightarrow> status r = ''paid'' \<Longrightarrow>
   \<exists>r'. get_order (orders (run s rqs)) k = Some r' \<and> status r' = ''paid''"
proof (induction rqs arbitrary: s r)
  case Nil
  then show ?case by simp
next
  case (Cons a rqs)
  obtain env rq where a: "a = (env, rq)" by (cases a)
  from handle_row [OF Cons.prems(1), of env rq] Cons.prems(2)
  obtain r' where "get_order (orders (snd (handle env s rq))) k = Some r'" "status r' = ''paid''"
    by auto
  then show ?case unfolding a by (simp add: Cons.IH)
qed

lemma handle_orders:
  "orders (snd (handle env s rq)) = orders s
   \<or> (\<exists>items c u now. rq = POST_orders items c u now
         \<and> orders (snd (handle env s rq)) = orders s @
             [\<lparr>order_id = gen_orderId u,
               customer_name = firstName c @ '' '' @ lastName c,
               email = cust_email c,
               address = cust_address c,
               total = bind_number (calculatedTotal items),
               status = ''pending'',
               transaction_id = None,
               created_at = now\<rparr>])
   \<or> (\<exists>orderId t. rq = POST_verify_payment orderId (Str t) \<and> matches_12_digits t
         \<and> startsWith t ''2026''
         \<and> orders (snd (handle env s rq)) =
             map (\<lambda>r. if order_id r = orderId
                       then r\<lparr>status := ''paid'', transaction_id := Some t\<rparr> else r) (orders s))"
proof (cases "exited s")
  case True
  then show ?thesis by (cases rq) simp_all
next
  case alive: False
  show ?thesis
  proof (cases rq)
    case GET_admin_orders
    with alive show ?thesis by (simp add: list_orders_def)
  next
    case (POST_orders items c u now)
    show ?thesis
    proof (cases "gen_orderId u \<in> order_id ` set (orders s)")
      case True
      with alive POST_orders show ?thesis by (simp add: create_order_collision)
    next
      case False
      with alive POST_orders show ?thesis by (simp add: create_order_fresh)
    qed
  next
    case (POST_verify_payment orderId tid)
    with alive show ?thesis
      by (auto simp: verify_payment_orders update_paid_def test_12_digits_def)
  qed
qed

lemma handle_keeps_lifecycle:
  assumes "\<forall>r \<in> set (orders s).
             status r = ''pending'' \<and> transaction_id r = None
             \<or> status r = ''paid''
               \<and> (\<exists>t. transaction_id r = Some t \<and> matches_12_digits t \<and> startsWith t ''2026'')"
  shows "\<forall>r \<in> set (orders (snd (handle env s rq))).
             status r = ''pending'' \<and> transaction_id r = None
             \<or> status r = ''paid''
               \<and> (\<exists>t. transaction_id r = Some t \<and> matches_12_digits t \<and> startsWith t ''2026'')"
proof -
  let ?ok = "\<lambda>r. status r = ''pending'' \<and> transaction_id r = None
             \<or> status r = ''paid''
               \<and> (\<exists>t. transaction_id r = Some t \<and> matches_12_digits t \<and> startsWith t ''2026'')"
  from handle_orders [of env s rq]
  consider "orders (snd (handle env s rq)) = orders s"
    | x where "orders (snd (handle env s rq)) = orders s @ [x]"
        "status x = ''pending''" "transaction_id x = None"
    | orderId t where "matches_12_digits t" "startsWith t ''2026''"
        "orders (snd (handle env s rq)) =
             map (\<lambda>r. if order_id r = orderId
                       then r\<lparr>status := ''paid'', transaction_id := Some t\<rparr> else r) (orders s)"
    by fastforce
  then have "\<forall>r \<in> set (orders (snd (handle env s rq))). ?ok r"
  proof cases
    case 1
    with assms show ?thesis by simp
  next
    case 2
    with assms show ?thesis by simp
  next
    case 3
    have upd: "?ok (if order_id r = orderId
               then r\<lparr>status := ''paid'', transaction_id := Some t\<rparr> else r)"
      if "r \<in> set (orders s)" for r
      using that assms 3(1,2) by simp
    show ?thesis
    proof
      fix r' assume "r' \<in> set (orders (snd (handle env s rq)))"
      then obtain r where "r \<in> set (orders s)"
        and "r' = (if order_id r = orderId
               then r\<lparr>status := ''paid'', transaction_id := Some t\<rparr> else r)"
        unfolding 3(3) set_map by blast
      with upd [of r] show "?ok r'" by (simp only:)
    qed
  qed
  then show ?thesis .
qed

lemma run_keeps_lifecycle:
  assumes "\<forall>r \<in> set (orders s).
             status r = ''pending'' \<and> transaction_id r = None
             \<or> status r = ''paid''
               \<and> (\<exists>t. transaction_id r = Some t \<and> matches_12_digits t \<and> startsWith t ''2026'')"
  shows "\<forall>r \<in> set (orders (run s rqs)).
             status r = ''pending'' \<and> transaction_id r = None
             \<or> status r = ''paid''
               \<and> (\<exists>t. transaction_id r = Some t \<and> matches_12_digits t \<and> startsWith t ''2026'')"
  using assms
proof (induction rqs arbitrary: s)
  case Nil
  then show ?case by simp
next
  case (Cons a rqs)
  obtain env rq where a: "a = (env, rq)" by (cases a)
  show ?case
    unfolding a run.simps
    by (rule Cons.IH, rule handle_keeps_lifecycle, rule Cons.prems)
qed

text \<open>
  Claim C4 does not hold as stated: after an order has been paid with one transaction id,
  a second accepted verification replaces the stored transaction id.
\<close>

theorem paid_transaction_id_overwritten:
  "get_order (orders (run initial
      [(env_delivering, POST_orders [\<lparr>item_id = Finite 1, quantity = Finite 2\<rparr>] sample_customer
                          (1 / 2) 1700000000),
       (env_delivering, POST_verify_payment ''EK-500000'' (Str ''202600000001''))])) ''EK-500000''
     = Some (sample_pending\<lparr>status := ''paid'', transaction_id := Some ''202600000001''\<rparr>)
   \<and> get_order (orders (run initial
      [(env_delivering, POST_orders [\<lparr>item_id = Finite 1, quantity = Finite 2\<rparr>] sample_customer
                          (1 / 2) 1700000000),
       (env_delivering, POST_verify_payment ''EK-500000'' (Str ''202600000001'')),
       (env_delivering, POST_verify_payment ''EK-500000'' (Str ''202600000002''))])) ''EK-500000''
     = Some (sample_pending\<lparr>status := ''paid'', transaction_id := Some ''202600000002''\<rparr>)"
proof -
  have fmt: "matches_12_digits ''202600000001''" "matches_12_digits ''202600000002''"
    by (simp_all add: matches_12_digits_def is_digit_def)
  have pre: "startsWith ''202600000001'' ''2026''" "startsWith ''202600000002'' ''2026''"
    by (simp_all add: startsWith_def)
  have s0: "get_order (orders sample_state) ''EK-500000'' = Some sample_pending"
    by (simp add: sample_state_def sample_pending_def get_order_def)
  have ok: "falsy (GMAIL_USER env_delivering) \<or> falsy (GMAIL_APP_PASSWORD env_delivering)
      \<or> total sample_pending \<noteq> None"
    by (simp add: sample_pending_def)
  define s1 where "s1 = snd (verify_payment env_delivering sample_state ''EK-500000''
                              (Str ''202600000001''))"
  have r1: "fst (verify_payment env_delivering sample_state ''EK-500000'' (Str ''202600000001''))
              = Some (200, success_body)"
    and g1: "get_order (orders s1) ''EK-500000''
              = Some (sample_pending\<lparr>status := ''paid'', transaction_id := Some ''202600000001''\<rparr>)"
    using verify_payment_marks_paid [OF s0 fmt(1) pre(1) ok] by (simp_all add: s1_def)
  have alive1: "\<not> exited s1"
    using verify_payment_accepted [OF fmt(1) s0 pre(1), of env_delivering] r1
    by (auto simp: s1_def sample_state_def)
  have g2: "get_order (orders (snd (verify_payment env_delivering s1 ''EK-500000''
                (Str ''202600000002'')))) ''EK-500000''
              = Some (sample_pending\<lparr>status := ''paid'', transaction_id := Some ''202600000002''\<rparr>)"
    using verify_payment_row [OF g1, of env_delivering "''EK-500000''" "Str ''202600000002''"]
      fmt pre
    by (simp add: test_12_digits_def)
  have alive0: "\<not> exited initial" "\<not> exited sample_state"
    by (simp_all add: initial_def sample_state_def)
  show ?thesis
    using g1 g2 alive1 alive0
    by (simp add: sample_state_created s1_def)
qed

text \<open>
  Claim C4, amended. A created order starts pending with no transaction id. Handling a
  request either leaves a stored order as it is or, for an accepted verification of
  that order, sets its status to paid and its transaction id to the submitted one, both
  at once. A paid order stays paid under any sequence of requests, and in every state
  reached from the empty table an order is paid exactly when it has a transaction id.
  The transaction id is not written once: every accepted verification of an order, paid
  or not, stores the submitted id.
\<close>

theorem order_status_lifecycle:
  "(\<forall>oid t. fst (create_order s items c u now) = Some (200, created_body oid t) \<longrightarrow>
      (\<exists>r. get_order (orders (snd (create_order s items c u now))) oid = Some r
          \<and> status r = ''pending'' \<and> transaction_id r = None))
   \<and> (\<forall>r. get_order (orders s) k = Some r \<longrightarrow>
        (\<exists>r'. get_order (orders (snd (handle env s rq))) k = Some r'
           \<and> (r' = r
               \<or> (\<exists>t. rq = POST_verify_payment k (Str t) \<and> matches_12_digits t
                     \<and> startsWith t ''2026''
                     \<and> r' = r\<lparr>status := ''paid'', transaction_id := Some t\<rparr>))))
   \<and> (\<forall>r. get_order (orders s) k = Some r \<and> status r = ''paid'' \<longrightarrow>
        (\<exists>r'. get_order (orders (run s rqs)) k = Some r' \<and> status r' = ''paid''))
   \<and> (\<forall>r \<in> set (orders (run initial rqs)).
        status r = ''pending'' \<and> transaction_id r = None
        \<or> status r = ''paid''
          \<and> (\<exists>t. transaction_id r = Some t \<and> matches_12_digits t \<and> startsWith t ''2026''))
   \<and> (\<forall>r t. get_order (orders s) k = Some r \<and> matches_12_digits t \<and> startsWith t ''2026'' \<longrightarrow>
        get_order (orders (snd (verify_payment env s k (Str t)))) k =
          Some (r\<lparr>status := ''paid'', transaction_id := Some t\<rparr>))"
proof (intro conjI allI impI)
  fix oid t
  assume ok: "fst (create_order s items c u now) = Some (200, created_body oid t)"
  have f: "gen_orderId u \<notin> order_id ` set (orders s)"
  proof
    assume "gen_orderId u \<in> order_id ` set (orders s)"
    from create_order_collision [OF this] ok show False by simp
  qed
  from ok create_order_fresh [OF f, of items c now] have "oid = gen_orderId u" by simp
  with f show "\<exists>r. get_order (orders (snd (create_order s items c u now))) oid = Some r
          \<and> status r = ''pending'' \<and> transaction_id r = None"
    by (simp add: create_order_fresh get_order_append_fresh)
next
  fix r assume "get_order (orders s) k = Some r"
  then show "\<exists>r'. get_order (orders (snd (handle env s rq))) k = Some r'
           \<and> (r' = r
               \<or> (\<exists>t. rq = POST_verify_payment k (Str t) \<and> matches_12_digits t
                     \<and> startsWith t ''2026''
                     \<and> r' = r\<lparr>status := ''paid'', transaction_id := Some t\<rparr>))"
    by (rule handle_row)
next
  fix r assume "get_order (orders s) k = Some r \<and> status r = ''paid''"
  then show "\<exists>r'. get_order (orders (run s rqs)) k = Some r' \<and> status r' = ''paid''"
    using run_paid_stays_paid by blast
next
  have "\<forall>r \<in> set (orders initial).
             status r = ''pending'' \<and> transaction_id r = None
             \<or> status r = ''paid''
               \<and> (\<exists>t. transaction_id r = Some t \<and> matches_12_digits t \<and> startsWith t ''2026'')"
    by (simp add: initial_def)
  from run_keeps_lifecycle [OF this, of rqs]
  show "\<forall>r \<in> set (orders (run initial rqs)).
        status r = ''pending'' \<and> transaction_id r = None
        \<or> status r = ''paid''
          \<and> (\<exists>t. transaction_id r = Some t \<and> matches_12_digits t \<and> startsWith t ''2026'')" .
next
  fix r t
  assume "get_order (orders s) k = Some r \<and> matches_12_digits t \<and> startsWith t ''2026''"
  then show "get_order (orders (snd (verify_payment env s k (Str t)))) k =
          Some (r\<lparr>status := ''paid'', transaction_id := Some t\<rparr>)"
    using verify_payment_row [of s k r env k "Str t"] by (simp add: test_12_digits_def)
qed

theorem order_status_lifecycle_witness:
  "get_order (orders sample_state) ''EK-500000'' = Some sample_pending
   \<and> matches_12_digits ''202600000001'' \<and> startsWith ''202600000001'' ''2026''
   \<and> get_order (orders (snd (verify_payment env_delivering sample_state
         ''EK-500000'' (Str ''202600000001'')))) ''EK-500000''
       = Some (sample_pending\<lparr>status := ''paid'', transaction_id := Some ''202600000001''\<rparr>)
   \<and> (\<exists>r'. get_order (orders (snd (handle env_delivering sample_state GET_admin_orders)))
              ''EK-500000'' = Some r' \<and> r' = sample_pending)"
proof -
  have a: "get_order (orders sample_state) ''EK-500000'' = Some sample_pending"
    by (simp add: sample_state_def sample_pending_def get_order_def)
  have b: "matches_12_digits ''202600000001''"
    by (simp add: matches_12_digits_def is_digit_def)
  have c: "startsWith ''202600000001'' ''2026''"
    by (simp add: startsWith_def)
  note inst = order_status_lifecycle
    [where s = sample_state and k = "''EK-500000''" and env = env_delivering
       and rq = GET_admin_orders]
  from inst a b c have "get_order (orders (snd (verify_payment env_delivering sample_state
         ''EK-500000'' (Str ''202600000001'')))) ''EK-500000''
       = Some (sample_pending\<lparr>status := ''paid'', transaction_id := Some ''202600000001''\<rparr>)"
    by blast
  moreover from inst a
  have "\<exists>r'. get_order (orders (snd (handle env_delivering sample_state GET_admin_orders)))
              ''EK-500000'' = Some r' \<and> r' = sample_pending"
    by (simp add: list_orders_def sample_state_def)
  ultimately show ?thesis using a b c by blast
qed

end
